theory Spec2Isabelle
  imports Main "HOL-Library.AList" "HOL-Library.Sublist"
begin

section \<open>Data model (models/schemas.py, agents/agent_system.py)\<close>

datatype AgentRole = AGENT_A | AGENT_B

datatype CallState = WAITING | CONNECTED | TRANSFERRING | TRANSFERRED | ENDED

datatype AgentState = IDLE | IN_CALL | IN_TRANSFER | OFFLINE

record Participant =
  identity :: string
  name :: string
  role :: "AgentRole option"
  is_agent :: bool
  joined_at :: string
  room_sid :: string

record CallSession =
  session_id :: string
  caller_identity :: string
  agent_a_identity :: "string option"
  agent_b_identity :: "string option"
  original_room_sid :: string
  transfer_room_sid :: "string option"
  state :: CallState
  call_summary :: "string option"
  transfer_reason :: "string option"
  created_at :: string
  participants :: "Participant list"

text \<open>The field \<open>context\<close> of \<open>TransferRequest\<close> is read nowhere and is left out.\<close>

record TransferRequest =
  session_id :: string
  agent_a_identity :: string
  agent_b_identity :: string
  reason :: "string option"

text \<open>One entry of \<open>conversation_history\<close>: a dict with the keys speaker, content, timestamp.\<close>

record message =
  speaker :: string
  content :: string
  timestamp :: string

text \<open>The dict stored in \<open>AgentA.transfer_requests[session_id]\<close>.\<close>

record transfer_info =
  agent_b_identity :: string
  reason :: string
  call_summary :: string
  transfer_room_sid :: string
  initiated_at :: string

text \<open>The dict stored in \<open>AgentB.transfer_context\<close>.\<close>

record transfer_ctx =
  explanation :: string
  call_summary :: string
  received_at :: string

record BaseAgent =
  identity :: string
  name :: string
  role :: AgentRole
  state :: AgentState
  current_session_id :: "string option"
  conversation_history :: "message list"

record AgentA = BaseAgent +
  transfer_requests :: "(string \<times> transfer_info) list"

record AgentB = BaseAgent +
  specialty :: string
  transfer_context :: "transfer_ctx option"

text \<open>An object of the registry is an instance of one of the two subclasses.\<close>

datatype agent = InstA AgentA | InstB AgentB

text \<open>
  The grants of a room credential (\<open>api.VideoGrants\<close>) with the fields this program sets.
  The three fields set only for agents are optional in the provider's library.
\<close>

record VideoGrants =
  room_join :: bool
  room :: string
  can_publish :: bool
  can_subscribe :: bool
  can_publish_data :: bool
  can_update_own_metadata :: bool
  can_publish_sources :: "string list option"
  hidden :: "bool option"
  recorder :: "bool option"

text \<open>A credential is modelled by what its JWT encodes: the identity and the grants.\<close>

record AccessToken =
  identity :: string
  grants :: VideoGrants

text \<open>
  Exceptions. \<open>HTTPException_str c e\<close> stands for
  \<open>HTTPException(status_code=c, detail=str(e))\<close>, \<open>ProviderError\<close> for whatever the
  room provider raises.
\<close>

datatype exn =
    ValueError string
  | AttributeError string
  | TypeError string
  | ProviderError
  | HTTPException nat string
  | HTTPException_str nat exn

text \<open>
  What the outside world answers during one operation: the clock in the three formats the
  code reads it, the room provider's answer to \<open>create_room\<close> (\<open>None\<close>: it raises), the
  text generator's answers (\<open>None\<close>: it raises), what the provider's library does with
  the calls \<open>generate_access_token\<close> makes on an access token (\<open>None\<close>: it accepts
  them; \<open>Some ex\<close>: the first of them raises \<open>ex\<close>), the library's values for the
  grant fields the program does not pass to the constructor, and the configured URL.
  Within one operation every reading of the clock gives the same instant, and each
  collaborator gives the same answer to every call.
\<close>

record env =
  now_isoformat :: string
  now_ymd_hms :: string
  now_hms :: string
  create_room_result :: "string option"
  call_summary_result :: "string option"
  transfer_explanation_result :: "string option"
  access_token_error :: "exn option"
  grants_defaults :: VideoGrants
  livekit_url :: string

text \<open>Python truthiness of an optional string: \<open>None\<close> and the empty string are false.\<close>

fun truthy :: "string option \<Rightarrow> bool" where
  "truthy None = False"
| "truthy (Some s) = (s \<noteq> [])"

text \<open>\<open>x or d\<close> on an optional string.\<close>

fun or_else :: "string option \<Rightarrow> string \<Rightarrow> string" where
  "or_else None d = d"
| "or_else (Some s) d = (if s = [] then d else s)"

section \<open>Agents (agents/agent_system.py)\<close>

definition add_to_conversation ::
  "env \<Rightarrow> string \<Rightarrow> string \<Rightarrow> 'a BaseAgent_scheme \<Rightarrow> 'a BaseAgent_scheme" where
  "add_to_conversation e spk txt b =
     b\<lparr>conversation_history := conversation_history b @
        [\<lparr>speaker = spk, content = txt, timestamp = now_isoformat e\<rparr>]\<rparr>"

text \<open>\<open>None\<close> on an empty history and when the text generator raises.\<close>

definition generate_call_summary :: "env \<Rightarrow> 'a BaseAgent_scheme \<Rightarrow> string option" where
  "generate_call_summary e b =
     (if conversation_history b = [] then None else call_summary_result e)"

text \<open>\<open>str.lower\<close> on ASCII letters, and the substring test \<open>sub in s\<close>.\<close>

definition lower_char :: "char \<Rightarrow> char" where
  "lower_char c =
     (let n = (of_char c :: nat)
      in if of_char (CHR ''A'') \<le> n \<and> n \<le> of_char (CHR ''Z'') then char_of (n + 32) else c)"

definition lower :: "string \<Rightarrow> string" where
  "lower s = map lower_char s"

fun contains :: "string \<Rightarrow> string \<Rightarrow> bool" where
  "contains sub [] = (sub = [])"
| "contains sub (c # cs) = (prefix sub (c # cs) \<or> contains sub cs)"

definition greeting :: string where
  "greeting = ''Hello! This is Agent A. How can I help you today?''"

definition AgentA_handle_incoming_call :: "env \<Rightarrow> string \<Rightarrow> AgentA \<Rightarrow> bool \<times> AgentA" where
  "AgentA_handle_incoming_call e sid a =
     (True, add_to_conversation e ''Agent A'' greeting
        (a\<lparr>BaseAgent.state := IN_CALL, current_session_id := Some sid,
           conversation_history := []\<rparr>))"

definition AgentA_process_conversation ::
  "env \<Rightarrow> string \<Rightarrow> string \<Rightarrow> AgentA \<Rightarrow> string option \<times> AgentA" where
  "AgentA_process_conversation e msg spk a =
     (let a1 = add_to_conversation e spk msg a;
          response =
            (if contains ''billing'' (lower msg) \<or> contains ''payment'' (lower msg)
             then ''I can see this is related to billing. Let me transfer you to our billing specialist who can help you better.''
             else if contains ''technical'' (lower msg) \<or> contains ''not working'' (lower msg)
             then ''This sounds like a technical issue. I'' @ [CHR 0x27] @ ''ll connect you with our technical support team.''
             else ''I understand. Let me see how I can help you with that.'')
      in (Some response, add_to_conversation e ''Agent A'' response a1))"

section \<open>The room service (services/livekit_service.py)\<close>

text \<open>The service's \<open>active_sessions\<close>: a dict from session ids to sessions.\<close>

type_synonym sessions = "(string \<times> CallSession) list"

definition create_room :: "env \<Rightarrow> string \<Rightarrow> nat \<Rightarrow> exn + string" where
  "create_room e room_name max_participants =
     (case create_room_result e of None \<Rightarrow> Inl ProviderError | Some sid \<Rightarrow> Inr sid)"

text \<open>
  The first statement constructs the library's access token, before any grant is built:
  when the library raises there, nothing else of the function runs.
\<close>

definition generate_access_token ::
  "env \<Rightarrow> string \<Rightarrow> string \<Rightarrow> bool \<Rightarrow> bool \<Rightarrow> bool \<Rightarrow> exn + AccessToken" where
  "generate_access_token e ident room_name is_agnt can_pub can_sub =
     (case access_token_error e of
        Some ex \<Rightarrow> Inl ex
      | None \<Rightarrow>
          (let g = (grants_defaults e)
                 \<lparr>room_join := True, room := room_name, can_publish := can_pub,
                  can_subscribe := can_sub, can_publish_data := True,
                  can_update_own_metadata := True\<rparr>;
               g' = (if is_agnt
                     then g\<lparr>can_publish_sources :=
                              Some [''camera'', ''microphone'', ''screen_share''],
                            hidden := Some False, recorder := Some True\<rparr>
                     else g)
           in Inr \<lparr>AccessToken.identity = ident, grants = g'\<rparr>))"

definition create_call_session ::
  "env \<Rightarrow> string \<Rightarrow> string \<Rightarrow> sessions \<Rightarrow> (exn + CallSession) \<times> sessions" where
  "create_call_session e caller agent_a ss =
     (let sid = ''session_'' @ now_ymd_hms e @ ''_'' @ caller;
          room_name = ''call_'' @ sid
      in case create_room e room_name 3 of
           Inl ex \<Rightarrow> (Inl ex, ss)
         | Inr rsid \<Rightarrow>
             (let session =
                   \<lparr>CallSession.session_id = sid, caller_identity = caller,
                    CallSession.agent_a_identity = Some agent_a,
                    CallSession.agent_b_identity = None,
                    original_room_sid = rsid, CallSession.transfer_room_sid = None,
                    CallSession.state = WAITING, CallSession.call_summary = None,
                    transfer_reason = None, created_at = now_isoformat e,
                    participants = []\<rparr>
              in (Inr session, AList.update sid session ss)))"

text \<open>
  The token is generated before the participant is recorded and the state advanced: when
  the token call raises, the session is left as it was.
\<close>

definition join_participant ::
  "env \<Rightarrow> string \<Rightarrow> string \<Rightarrow> AgentRole option \<Rightarrow> sessions \<Rightarrow> (exn + AccessToken) \<times> sessions" where
  "join_participant e sid ident rl ss =
     (case map_of ss sid of
        None \<Rightarrow> (Inl (ValueError (''Session '' @ sid @ '' not found'')), ss)
      | Some session \<Rightarrow>
          (let room_name = ''call_'' @ sid;
               is_agnt = (rl \<noteq> None)
           in case generate_access_token e ident room_name is_agnt True True of
                Inl ex \<Rightarrow> (Inl ex, ss)
              | Inr token \<Rightarrow>
                  (let participant =
                         \<lparr>Participant.identity = ident, Participant.name = ident,
                          Participant.role = rl, is_agent = is_agnt,
                          joined_at = now_isoformat e,
                          room_sid = original_room_sid session\<rparr>;
                       s1 = session\<lparr>participants := participants session @ [participant]\<rparr>;
                       s2 = (if rl = Some AGENT_A \<and> CallSession.state s1 = WAITING
                             then s1\<lparr>CallSession.state := CONNECTED\<rparr> else s1)
                   in (Inr token, AList.update sid s2 ss))))"

text \<open>
  The session is written before the transfer room is requested: when \<open>create_room\<close>
  raises, the three assignments made before it stay.
\<close>

definition initiate_warm_transfer ::
  "env \<Rightarrow> string \<Rightarrow> string \<Rightarrow> string option \<Rightarrow> sessions \<Rightarrow> (exn + string) \<times> sessions" where
  "initiate_warm_transfer e sid agent_b rsn ss =
     (case map_of ss sid of
        None \<Rightarrow> (Inl (ValueError (''Session '' @ sid @ '' not found'')), ss)
      | Some session \<Rightarrow>
          (let s1 = session\<lparr>CallSession.agent_b_identity := Some agent_b,
                            transfer_reason := rsn,
                            CallSession.state := TRANSFERRING\<rparr>;
               transfer_room_name = ''transfer_'' @ sid @ ''_'' @ now_hms e
           in case create_room e transfer_room_name 2 of
                Inl ex \<Rightarrow> (Inl ex, AList.update sid s1 ss)
              | Inr rsid \<Rightarrow>
                  (Inr rsid,
                   AList.update sid (s1\<lparr>CallSession.transfer_room_sid := Some rsid\<rparr>) ss)))"

text \<open>\<open>s[-6:]\<close>: the last six characters.\<close>

definition last6 :: "string \<Rightarrow> string" where
  "last6 s = drop (length s - 6) s"

definition get_transfer_room_tokens ::
  "env \<Rightarrow> string \<Rightarrow> sessions \<Rightarrow> exn + (string \<times> AccessToken) list" where
  "get_transfer_room_tokens e sid ss =
     (case map_of ss sid of
        None \<Rightarrow> Inl (ValueError (''Session '' @ sid @ '' not found''))
      | Some session \<Rightarrow>
          (case CallSession.transfer_room_sid session of
             None \<Rightarrow> Inl (ValueError (''No transfer room for session '' @ sid))
           | Some trs \<Rightarrow>
               if trs = [] then Inl (ValueError (''No transfer room for session '' @ sid))
               else
                 (let transfer_room_name = ''transfer_'' @ sid @ ''_'' @ last6 trs
                  in case (if truthy (CallSession.agent_a_identity session)
                           then (case generate_access_token e
                                        (or_else (CallSession.agent_a_identity session) [])
                                        transfer_room_name True True True of
                                   Inl ex \<Rightarrow> Inl ex
                                 | Inr t \<Rightarrow> Inr [(''agent_a'', t)])
                           else Inr []) of
                       Inl ex \<Rightarrow> Inl ex
                     | Inr t1 \<Rightarrow>
                         if truthy (CallSession.agent_b_identity session)
                         then (case generate_access_token e
                                      (or_else (CallSession.agent_b_identity session) [])
                                      transfer_room_name True True True of
                                 Inl ex \<Rightarrow> Inl ex
                               | Inr t \<Rightarrow> Inr (AList.update ''agent_b'' t t1))
                         else Inr t1)))"

text \<open>
  The final room is created, then the two tokens of the final room are generated (and
  dropped: they do not appear in the result), and only then is the session set to
  \<open>TRANSFERRED\<close>. When a token call raises, the session is left as it was.
\<close>

definition complete_transfer_service ::
  "env \<Rightarrow> string \<Rightarrow> sessions \<Rightarrow> (exn + string) \<times> sessions" where
  "complete_transfer_service e sid ss =
     (case map_of ss sid of
        None \<Rightarrow> (Inl (ValueError (''Session '' @ sid @ '' not found'')), ss)
      | Some session \<Rightarrow>
          if \<not> truthy (CallSession.agent_b_identity session)
          then (Inl (ValueError (''No Agent B assigned for session '' @ sid)), ss)
          else
            (let final_room_name = ''final_'' @ sid
             in case create_room e final_room_name 2 of
                  Inl ex \<Rightarrow> (Inl ex, ss)
                | Inr final_room_sid \<Rightarrow>
                    (case generate_access_token e (caller_identity session)
                            final_room_name False True True of
                       Inl ex \<Rightarrow> (Inl ex, ss)
                     | Inr caller_token \<Rightarrow>
                         (case generate_access_token e
                                 (or_else (CallSession.agent_b_identity session) [])
                                 final_room_name True True True of
                            Inl ex \<Rightarrow> (Inl ex, ss)
                          | Inr agent_b_token \<Rightarrow>
                              (Inr final_room_sid,
                               AList.update sid
                                 (session\<lparr>CallSession.state := TRANSFERRED\<rparr>) ss)))))"

text \<open>No branch raises: an unknown id falls through the \<open>if\<close> and the call returns.\<close>

definition end_session :: "string \<Rightarrow> sessions \<Rightarrow> (exn + unit) \<times> sessions" where
  "end_session sid ss =
     (case map_of ss sid of
        None \<Rightarrow> (Inr (), ss)
      | Some session \<Rightarrow>
          (Inr (), AList.update sid (session\<lparr>CallSession.state := ENDED\<rparr>) ss))"

definition get_session :: "string \<Rightarrow> sessions \<Rightarrow> CallSession option" where
  "get_session sid ss = map_of ss sid"

section \<open>Agent methods that use the room service\<close>

definition placeholder_summary :: string where
  "placeholder_summary = ''Customer inquiry requiring specialized assistance''"

text \<open>
  Returns the transfer room id (\<open>None\<close> on failure), the agent and the sessions. Any
  exception after the first assignment sets the agent back to \<open>IN_CALL\<close>.
\<close>

definition AgentA_initiate_transfer ::
  "env \<Rightarrow> string \<Rightarrow> string \<Rightarrow> AgentA \<Rightarrow> sessions \<Rightarrow> string option \<times> AgentA \<times> sessions" where
  "AgentA_initiate_transfer e agent_b rsn a ss =
     (case current_session_id a of
        None \<Rightarrow> (None, a, ss)
      | Some sid \<Rightarrow>
          if sid = [] then (None, a, ss)
          else
            (let a1 = a\<lparr>BaseAgent.state := IN_TRANSFER\<rparr>;
                 summary = or_else (generate_call_summary e a1) placeholder_summary
             in case initiate_warm_transfer e sid agent_b (Some rsn) ss of
                  (Inl ex, ss') \<Rightarrow> (None, a1\<lparr>BaseAgent.state := IN_CALL\<rparr>, ss')
                | (Inr rsid, ss') \<Rightarrow>
                    (Some rsid,
                     a1\<lparr>transfer_requests :=
                          AList.update sid
                            \<lparr>transfer_info.agent_b_identity = agent_b,
                             transfer_info.reason = rsn,
                             transfer_info.call_summary = summary,
                             transfer_info.transfer_room_sid = rsid,
                             initiated_at = now_isoformat e\<rparr>
                            (transfer_requests a1)\<rparr>,
                     ss')))"

definition AgentA_explain_transfer_to_agent_b ::
  "env \<Rightarrow> string \<Rightarrow> AgentA \<Rightarrow> string option \<times> AgentA" where
  "AgentA_explain_transfer_to_agent_b e agent_b a =
     (case current_session_id a of
        None \<Rightarrow> (None, a)
      | Some sid \<Rightarrow>
          (case map_of (transfer_requests a) sid of
             None \<Rightarrow> (None, a)
           | Some info \<Rightarrow>
               (case transfer_explanation_result e of
                  None \<Rightarrow> (None, a)
                | Some expl \<Rightarrow>
                    (Some expl,
                     add_to_conversation e ''Agent A''
                       (''[Transfer explanation to '' @ agent_b @ '']: '' @ expl) a))))"

definition AgentA_complete_transfer ::
  "env \<Rightarrow> AgentA \<Rightarrow> sessions \<Rightarrow> bool \<times> AgentA \<times> sessions" where
  "AgentA_complete_transfer e a ss =
     (if \<not> truthy (current_session_id a) then (False, a, ss)
      else
        (let ss' = (case current_session_id a of
                      None \<Rightarrow> ss
                    | Some sid \<Rightarrow>
                        (case get_session sid ss of
                           None \<Rightarrow> ss
                         | Some session \<Rightarrow>
                             AList.update sid
                               (session\<lparr>CallSession.call_summary := generate_call_summary e a\<rparr>) ss))
         in (True, a\<lparr>BaseAgent.state := IDLE, current_session_id := None\<rparr>, ss')))"

definition AgentB_handle_incoming_call :: "env \<Rightarrow> string \<Rightarrow> AgentB \<Rightarrow> bool \<times> AgentB" where
  "AgentB_handle_incoming_call e sid b =
     (True, b\<lparr>BaseAgent.state := IN_CALL, current_session_id := Some sid\<rparr>)"

definition acknowledgment :: "AgentB \<Rightarrow> string" where
  "acknowledgment b =
     ''Thank you Agent A. I'' @ [CHR 0x27] @ ''ll take care of this customer. Hello, I'' @
     [CHR 0x27] @ ''m '' @ BaseAgent.name b @ '' from '' @ specialty b @
     ''. I'' @ [CHR 0x27] @ ''ve been briefed on your situation and I'' @ [CHR 0x27] @
     ''m here to help.''"

definition AgentB_receive_transfer_context :: "env \<Rightarrow> string \<Rightarrow> string \<Rightarrow> AgentB \<Rightarrow> AgentB" where
  "AgentB_receive_transfer_context e expl summary b =
     (let b1 = b\<lparr>transfer_context :=
                   Some \<lparr>explanation = expl, transfer_ctx.call_summary = summary,
                         received_at = now_isoformat e\<rparr>\<rparr>;
          b2 = add_to_conversation e ''Agent A'' (''[Transfer]: '' @ expl) b1
      in add_to_conversation e ''Agent B'' (acknowledgment b2) b2)"

definition AgentB_process_conversation ::
  "env \<Rightarrow> string \<Rightarrow> string \<Rightarrow> AgentB \<Rightarrow> string option \<times> AgentB" where
  "AgentB_process_conversation e msg spk b =
     (let b1 = add_to_conversation e spk msg b;
          response =
            (if specialty b1 = ''Billing'' then
               (if contains ''payment'' (lower msg) \<or> contains ''billing'' (lower msg)
                then ''I can help you with that billing issue. Let me pull up your account details.''
                else ''I'' @ [CHR 0x27] @ ''m here to help with any billing or payment related questions you might have.'')
             else if specialty b1 = ''Technical'' then
               (if contains ''not working'' (lower msg) \<or> contains ''broken'' (lower msg)
                then ''I understand the technical issue you'' @ [CHR 0x27] @ ''re experiencing. Let me troubleshoot this with you.''
                else ''I'' @ [CHR 0x27] @ ''m here to provide technical support and resolve any technical issues.'')
             else ''I'' @ [CHR 0x27] @ ''m here to provide specialized assistance. How can I help you today?'')
      in (Some response, add_to_conversation e ''Agent B'' response b1))"

definition AgentB_end_call :: "env \<Rightarrow> AgentB \<Rightarrow> sessions \<Rightarrow> bool \<times> AgentB \<times> sessions" where
  "AgentB_end_call e b ss =
     (case current_session_id b of
        None \<Rightarrow> (False, b, ss)
      | Some sid \<Rightarrow>
          if sid = [] then (False, b, ss)
          else
            (case end_session sid ss of
               (Inl ex, ss') \<Rightarrow> (False, b, ss')
             | (Inr u, ss') \<Rightarrow>
                 (True,
                  b\<lparr>BaseAgent.state := IDLE, current_session_id := None,
                    transfer_context := None\<rparr>,
                  ss')))"

section \<open>The agent registry (AgentManager)\<close>

type_synonym registry = "(string \<times> agent) list"

text \<open>
  The program's state: the registry's dict of agents (in registration order), its
  session to agent map, and the room service's sessions.
\<close>

record system =
  agents :: registry
  agent_assignments :: "(string \<times> string) list"
  active_sessions :: sessions

fun agent_identity :: "agent \<Rightarrow> string" where
  "agent_identity (InstA a) = BaseAgent.identity a"
| "agent_identity (InstB b) = BaseAgent.identity b"

fun agent_state :: "agent \<Rightarrow> AgentState" where
  "agent_state (InstA a) = BaseAgent.state a"
| "agent_state (InstB b) = BaseAgent.state b"

fun agent_current_session :: "agent \<Rightarrow> string option" where
  "agent_current_session (InstA a) = current_session_id a"
| "agent_current_session (InstB b) = current_session_id b"


fun agent_history :: "agent \<Rightarrow> message list" where
  "agent_history (InstA a) = conversation_history a"
| "agent_history (InstB b) = conversation_history b"

definition new_AgentA :: "string \<Rightarrow> string \<Rightarrow> AgentA" where
  "new_AgentA ident nm =
     \<lparr>BaseAgent.identity = ident, BaseAgent.name = nm, BaseAgent.role = AGENT_A,
      BaseAgent.state = IDLE, current_session_id = None, conversation_history = [],
      transfer_requests = []\<rparr>"

definition new_AgentB :: "string \<Rightarrow> string \<Rightarrow> string \<Rightarrow> AgentB" where
  "new_AgentB ident nm spec =
     \<lparr>BaseAgent.identity = ident, BaseAgent.name = nm, BaseAgent.role = AGENT_B,
      BaseAgent.state = IDLE, current_session_id = None, conversation_history = [],
      specialty = spec, transfer_context = None\<rparr>"

definition register_agent :: "agent \<Rightarrow> registry \<Rightarrow> registry" where
  "register_agent ag reg = AList.update (agent_identity ag) ag reg"

definition get_agent :: "registry \<Rightarrow> string \<Rightarrow> agent option" where
  "get_agent reg ident = map_of reg ident"

text \<open>Both lookups only read the registry: no statement of theirs assigns to an agent.\<close>

fun get_available_agent_a :: "registry \<Rightarrow> AgentA option" where
  "get_available_agent_a [] = None"
| "get_available_agent_a ((k, InstA a) # rest) =
     (if BaseAgent.state a = IDLE then Some a else get_available_agent_a rest)"
| "get_available_agent_a ((k, InstB b) # rest) = get_available_agent_a rest"

fun get_available_agent_b :: "registry \<Rightarrow> string option \<Rightarrow> AgentB option" where
  "get_available_agent_b [] spec = None"
| "get_available_agent_b ((k, InstB b) # rest) spec =
     (if BaseAgent.state b = IDLE \<and> (spec = None \<or> Some (specialty b) = spec)
      then Some b else get_available_agent_b rest spec)"
| "get_available_agent_b ((k, InstA a) # rest) spec = get_available_agent_b rest spec"

definition assign_agent_to_session ::
  "string \<Rightarrow> string \<Rightarrow> (string \<times> string) list \<Rightarrow> (string \<times> string) list" where
  "assign_agent_to_session sid ident asg = AList.update sid ident asg"

definition create_default_agents :: "registry \<Rightarrow> registry" where
  "create_default_agents reg =
     register_agent (InstB (new_AgentB ''agent_b_general'' ''John (General)'' ''General Support''))
       (register_agent (InstB (new_AgentB ''agent_b_technical'' ''Lisa (Technical)'' ''Technical''))
         (register_agent (InstB (new_AgentB ''agent_b_billing'' ''Mike (Billing)'' ''Billing''))
           (register_agent (InstA (new_AgentA ''agent_a_001'' ''Sarah (Agent A)'')) reg)))"

section \<open>The request handlers (main.py)\<close>

datatype response =
    CreateCallResponse string string string
  | JoinCallResponse AccessToken string string
  | InitiateTransferResponse string "(string \<times> AccessToken) list" string
  | ExplainTransferResponse string "string option"
  | CompleteTransferResponse bool string string

text \<open>Every handler body is wrapped: \<open>except Exception as e: raise HTTPException(500, str(e))\<close>.\<close>

definition wrap :: "exn \<Rightarrow> exn" where
  "wrap ex = HTTPException_str 500 ex"

definition create_call ::
  "env \<Rightarrow> string \<Rightarrow> string option \<Rightarrow> system \<Rightarrow> (exn + response) \<times> system" where
  "create_call e caller agent_a_opt s =
     (case (if \<not> truthy agent_a_opt
            then (case get_available_agent_a (agents s) of
                    None \<Rightarrow> Inl (HTTPException 503 ''No Agent A available'')
                  | Some a \<Rightarrow> Inr (BaseAgent.identity a))
            else Inr (or_else agent_a_opt [])) of
        Inl ex \<Rightarrow> (Inl (wrap ex), s)
      | Inr aid \<Rightarrow>
          (case create_call_session e caller aid (active_sessions s) of
             (Inl ex, ss') \<Rightarrow> (Inl (wrap ex), s\<lparr>active_sessions := ss'\<rparr>)
           | (Inr session, ss') \<Rightarrow>
               (let sid = CallSession.session_id session;
                    s1 = s\<lparr>active_sessions := ss',
                           agent_assignments :=
                             assign_agent_to_session sid aid (agent_assignments s)\<rparr>;
                    s2 = (case get_agent (agents s1) aid of
                            None \<Rightarrow> s1
                          | Some (InstA a) \<Rightarrow>
                              s1\<lparr>agents := AList.update aid
                                    (InstA (snd (AgentA_handle_incoming_call e sid a))) (agents s1)\<rparr>
                          | Some (InstB b) \<Rightarrow>
                              s1\<lparr>agents := AList.update aid
                                    (InstB (snd (AgentB_handle_incoming_call e sid b))) (agents s1)\<rparr>)
                in (Inr (CreateCallResponse sid (''call_'' @ sid) aid), s2))))"

text \<open>
  \<open>AgentRole(role) if role else None\<close>: an unknown role name raises \<open>ValueError\<close>,
  whose message quotes the name (for a name without quotes or escapes in it).
\<close>

definition parse_role :: "string option \<Rightarrow> exn + AgentRole option" where
  "parse_role r =
     (if \<not> truthy r then Inr None
      else if r = Some ''agent_a'' then Inr (Some AGENT_A)
      else if r = Some ''agent_b'' then Inr (Some AGENT_B)
      else Inl (ValueError
                  ([CHR 0x27] @ or_else r [] @ [CHR 0x27] @ '' is not a valid AgentRole'')))"

definition join_call ::
  "env \<Rightarrow> string \<Rightarrow> string \<Rightarrow> string option \<Rightarrow> system \<Rightarrow> (exn + response) \<times> system" where
  "join_call e sid ident r s =
     (case parse_role r of
        Inl ex \<Rightarrow> (Inl (wrap ex), s)
      | Inr agent_role \<Rightarrow>
          (case join_participant e sid ident agent_role (active_sessions s) of
             (Inl ex, ss') \<Rightarrow> (Inl (wrap ex), s\<lparr>active_sessions := ss'\<rparr>)
           | (Inr token, ss') \<Rightarrow>
               (Inr (JoinCallResponse token (livekit_url e) (''call_'' @ sid)),
                s\<lparr>active_sessions := ss'\<rparr>)))"

text \<open>
  The transfer runs on agent A's own current session; the path's session id is used only
  to fetch the tokens of the transfer room.
\<close>

definition initiate_transfer ::
  "env \<Rightarrow> string \<Rightarrow> TransferRequest \<Rightarrow> system \<Rightarrow> (exn + response) \<times> system" where
  "initiate_transfer e sid req s =
     (case get_agent (agents s) (TransferRequest.agent_a_identity req) of
        None \<Rightarrow> (Inl (wrap (HTTPException 404 ''Agent A not found'')), s)
      | Some agent_a \<Rightarrow>
          (case (case get_agent (agents s) (TransferRequest.agent_b_identity req) of
                   Some agent_b \<Rightarrow> Some (TransferRequest.agent_b_identity req)
                 | None \<Rightarrow>
                     (case get_available_agent_b (agents s) None of
                        None \<Rightarrow> None
                      | Some b \<Rightarrow> Some (BaseAgent.identity b))) of
             None \<Rightarrow> (Inl (wrap (HTTPException 503 ''No Agent B available'')), s)
           | Some b_id \<Rightarrow>
               (case agent_a of
                  InstB b \<Rightarrow> (Inl (wrap (AttributeError ''initiate_transfer'')), s)
                | InstA a \<Rightarrow>
                    (case AgentA_initiate_transfer e b_id
                            (or_else (TransferRequest.reason req) ''Customer transfer request'')
                            a (active_sessions s) of
                       (res, a', ss') \<Rightarrow>
                         (let s' = s\<lparr>agents := AList.update (TransferRequest.agent_a_identity req)
                                                 (InstA a') (agents s),
                                     active_sessions := ss'\<rparr>
                          in if \<not> truthy res
                             then (Inl (wrap (HTTPException 500 ''Failed to initiate transfer'')), s')
                             else
                               (case get_transfer_room_tokens e sid ss' of
                                  Inl ex \<Rightarrow> (Inl (wrap ex), s')
                                | Inr tokens \<Rightarrow>
                                    (Inr (InitiateTransferResponse (or_else res []) tokens b_id),
                                     s')))))))"

definition explain_transfer ::
  "env \<Rightarrow> string \<Rightarrow> string \<Rightarrow> string \<Rightarrow> system \<Rightarrow> (exn + response) \<times> system" where
  "explain_transfer e sid a_id b_id s =
     (case (get_agent (agents s) a_id, get_agent (agents s) b_id) of
        (Some (InstA a), Some agent_b) \<Rightarrow>
          (case AgentA_explain_transfer_to_agent_b e b_id a of
             (expl_opt, a') \<Rightarrow>
               (let s1 = s\<lparr>agents := AList.update a_id (InstA a') (agents s)\<rparr>
                in if \<not> truthy expl_opt
                   then (Inl (wrap (HTTPException 500 ''Failed to generate explanation'')), s1)
                   else
                     (let expl = or_else expl_opt [];
                          summary = generate_call_summary e a'
                      in case get_agent (agents s1) b_id of
                           Some (InstB b) \<Rightarrow>
                             (Inr (ExplainTransferResponse expl summary),
                              s1\<lparr>agents := AList.update b_id
                                    (InstB (AgentB_receive_transfer_context e expl
                                              (or_else summary []) b))
                                    (agents s1)\<rparr>)
                         | _ \<Rightarrow> (Inl (wrap (AttributeError ''receive_transfer_context'')), s1))))
      | (Some (InstB b), Some agent_b) \<Rightarrow>
          (Inl (wrap (AttributeError ''explain_transfer_to_agent_b'')), s)
      | _ \<Rightarrow> (Inl (wrap (HTTPException 404 ''Agent not found'')), s))"

text \<open>
  Agent A's own \<open>complete_transfer\<close> runs first and has already reset the agent when the
  room service then rejects the session.
\<close>

definition complete_transfer ::
  "env \<Rightarrow> string \<Rightarrow> string \<Rightarrow> system \<Rightarrow> (exn + response) \<times> system" where
  "complete_transfer e sid a_id s =
     (case get_agent (agents s) a_id of
        None \<Rightarrow> (Inl (wrap (HTTPException 404 ''Agent A not found'')), s)
      | Some (InstB b) \<Rightarrow> (Inl (wrap (AttributeError ''complete_transfer'')), s)
      | Some (InstA a) \<Rightarrow>
          (case AgentA_complete_transfer e a (active_sessions s) of
             (success, a', ss1) \<Rightarrow>
               (let s1 = s\<lparr>agents := AList.update a_id (InstA a') (agents s),
                           active_sessions := ss1\<rparr>
                in if \<not> success
                   then (Inl (wrap (HTTPException 500 ''Failed to complete transfer'')), s1)
                   else
                     (case complete_transfer_service e sid ss1 of
                        (Inl ex, ss2) \<Rightarrow> (Inl (wrap ex), s1\<lparr>active_sessions := ss2\<rparr>)
                      | (Inr final_room_sid, ss2) \<Rightarrow>
                          (Inr (CompleteTransferResponse True final_room_sid
                                  ''Transfer completed successfully''),
                           s1\<lparr>active_sessions := ss2\<rparr>)))))"

section \<open>Sequences of operations\<close>

text \<open>
  The operations of the control surface. Ending a session has no request handler: it is
  the room service's \<open>end_session\<close>, reached directly or through agent B's \<open>end_call\<close>.
\<close>

datatype operation =
    CreateCall string "string option"
  | JoinCall string string "string option"
  | InitiateTransfer string TransferRequest
  | ExplainTransfer string string string
  | CompleteTransfer string string
  | EndSession string
  | EndCall string

definition end_call :: "env \<Rightarrow> string \<Rightarrow> system \<Rightarrow> system" where
  "end_call e b_id s =
     (case get_agent (agents s) b_id of
        Some (InstB b) \<Rightarrow>
          (case AgentB_end_call e b (active_sessions s) of
             (ok, b', ss') \<Rightarrow>
               s\<lparr>agents := AList.update b_id (InstB b') (agents s), active_sessions := ss'\<rparr>)
      | _ \<Rightarrow> s)"

fun step :: "env \<Rightarrow> operation \<Rightarrow> system \<Rightarrow> system" where
  "step e (CreateCall caller a) s = snd (create_call e caller a s)"
| "step e (JoinCall sid ident r) s = snd (join_call e sid ident r s)"
| "step e (InitiateTransfer sid req) s = snd (initiate_transfer e sid req s)"
| "step e (ExplainTransfer sid a b) s = snd (explain_transfer e sid a b s)"
| "step e (CompleteTransfer sid a) s = snd (complete_transfer e sid a s)"
| "step e (EndSession sid) s = s\<lparr>active_sessions := snd (end_session sid (active_sessions s))\<rparr>"
| "step e (EndCall b) s = end_call e b s"

definition session_state :: "string \<Rightarrow> system \<Rightarrow> CallState option" where
  "session_state sid s = map_option CallSession.state (map_of (active_sessions s) sid)"

text \<open>The state of one session before the first operation and after each one.\<close>

fun states_of :: "string \<Rightarrow> (env \<times> operation) list \<Rightarrow> system \<Rightarrow> CallState option list" where
  "states_of sid [] s = [session_state sid s]"
| "states_of sid (x # ops) s = session_state sid s # states_of sid ops (step (fst x) (snd x) s)"

text \<open>The session id a \<open>CreateCall\<close> would store its new session under.\<close>

fun creates :: "env \<Rightarrow> operation \<Rightarrow> string option" where
  "creates e (CreateCall caller a) = Some (''session_'' @ now_ymd_hms e @ ''_'' @ caller)"
| "creates e _ = None"

text \<open>
  The session state machine as the specification words it: the observed states (a state
  is observed when it differs from the one before) form a subsequence of the four states
  in order, optionally followed by one final \<open>ENDED\<close>.
\<close>

definition spec_legal_sequence :: "CallState list \<Rightarrow> bool" where
  "spec_legal_sequence sts =
     (let body = (if sts \<noteq> [] \<and> last sts = ENDED then butlast sts else sts)
      in subseq body [WAITING, CONNECTED, TRANSFERRING, TRANSFERRED])"

definition observed :: "CallState option list \<Rightarrow> CallState list" where
  "observed sts = remdups_adj (List.map_filter id sts)"

text \<open>
  The transitions the code makes: a session keeps its state, goes from \<open>WAITING\<close> to
  \<open>CONNECTED\<close>, or is set to one of the three later states whatever its state was.
\<close>

fun code_transition :: "CallState option \<Rightarrow> CallState option \<Rightarrow> bool" where
  "code_transition (Some a) (Some b) =
     (b = a \<or> (a = WAITING \<and> b = CONNECTED) \<or> b = TRANSFERRING \<or> b = TRANSFERRED \<or> b = ENDED)"
| "code_transition _ _ = False"

section \<open>A concrete run\<close>

text \<open>
  The environment of the run. The provider library's access token is constructed from the
  key and the secret alone and offers no \<open>add_grant\<close>; called with the keyword
  \<open>identity\<close>, as \<open>generate_access_token\<close> calls it, it raises \<open>TypeError\<close>.
\<close>

definition token_type_error :: exn where
  "token_type_error =
     TypeError (''AccessToken.__init__() got an unexpected keyword argument '' @
                [CHR 0x27] @ ''identity'' @ [CHR 0x27])"

definition env0 :: env where
  "env0 =
     \<lparr>now_isoformat = ''2024-01-01T10:00:00'', now_ymd_hms = ''20240101_100000'',
      now_hms = ''100000'', create_room_result = Some ''RM_1'',
      call_summary_result = Some ''Customer asks about an invoice'',
      transfer_explanation_result = Some ''Caller has a billing question'',
      access_token_error = Some token_type_error,
      grants_defaults =
        \<lparr>room_join = False, room = [], can_publish = True, can_subscribe = True,
         can_publish_data = True, can_update_own_metadata = False,
         can_publish_sources = None, hidden = None, recorder = None\<rparr>,
      livekit_url = ''wss://localhost:7880''\<rparr>"

text \<open>The same environment with a room provider that raises.\<close>

definition env_no_room :: env where
  "env_no_room = env0\<lparr>create_room_result := None\<rparr>"

definition sys0 :: system where
  "sys0 = \<lparr>agents = create_default_agents [], agent_assignments = [], active_sessions = []\<rparr>"

definition sid1 :: string where
  "sid1 = ''session_20240101_100000_cust1''"

definition req1 :: TransferRequest where
  "req1 =
     \<lparr>TransferRequest.session_id = sid1, TransferRequest.agent_a_identity = ''agent_a_001'',
      TransferRequest.agent_b_identity = ''agent_b_billing'',
      TransferRequest.reason = Some ''billing''\<rparr>"

text \<open>
  The session is created; agent A tries to join (the token call raises, the session stays
  \<open>WAITING\<close>); the transfer is initiated (the handler answers with an error after the
  session and the transfer request are written); the transfer is explained; the
  completion is tried.
\<close>

definition sys_created :: system where
  "sys_created = step env0 (CreateCall ''cust1'' None) sys0"

definition sys_join_tried :: system where
  "sys_join_tried = step env0 (JoinCall sid1 ''agent_a_001'' (Some ''agent_a'')) sys_created"

definition sys_transferring :: system where
  "sys_transferring = step env0 (InitiateTransfer sid1 req1) sys_join_tried"

definition sys_explained :: system where
  "sys_explained =
     step env0 (ExplainTransfer sid1 ''agent_a_001'' ''agent_b_billing'') sys_transferring"


text \<open>Agent A and the session as \<open>sys_created\<close> holds them.\<close>

definition agent_a_created :: AgentA where
  "agent_a_created =
     snd (AgentA_handle_incoming_call env0 sid1 (new_AgentA ''agent_a_001'' ''Sarah (Agent A)''))"

definition session_created :: CallSession where
  "session_created =
     \<lparr>CallSession.session_id = sid1, caller_identity = ''cust1'',
      CallSession.agent_a_identity = Some ''agent_a_001'',
      CallSession.agent_b_identity = None, original_room_sid = ''RM_1'',
      CallSession.transfer_room_sid = None, CallSession.state = WAITING,
      CallSession.call_summary = None, transfer_reason = None,
      created_at = ''2024-01-01T10:00:00'', participants = []\<rparr>"

text \<open>Two sequences of operations: one from the start, one on the created session.\<close>

definition ops_end_then_initiate :: "(env \<times> operation) list" where
  "ops_end_then_initiate =
     [(env0, CreateCall ''cust1'' None),
      (env0, JoinCall sid1 ''agent_a_001'' (Some ''agent_a'')),
      (env0, EndSession sid1),
      (env0, InitiateTransfer sid1 req1)]"

definition ops_after_create :: "(env \<times> operation) list" where
  "ops_after_create =
     [(env0, JoinCall sid1 ''agent_a_001'' (Some ''agent_a'')),
      (env0, CreateCall ''cust2'' None),
      (env0, EndSession sid1),
      (env0, InitiateTransfer sid1 req1)]"

text \<open>The state of a session in the room service's store.\<close>

definition sst :: "string \<Rightarrow> sessions \<Rightarrow> CallState option" where
  "sst sid ss = map_option CallSession.state (map_of ss sid)"

section \<open>Ending a session that is not in the store\<close>

text \<open>
  C10. For a session id that is not in the session store, ending the session succeeds
  silently: the call reports no error, and the whole program state (every session, every
  agent, the assignment map) is what it was before.
\<close>

theorem end_session_unknown_is_noop:
  "map_of (active_sessions s) sid = None \<Longrightarrow>
     fst (end_session sid (active_sessions s)) = Inr () \<and> step e (EndSession sid) s = s"
  by (simp add: end_session_def)

theorem end_session_unknown_is_noop_witness:
  "map_of (active_sessions sys_created) ''session_19990101_000000_nobody'' = None \<and>
   fst (end_session ''session_19990101_000000_nobody'' (active_sessions sys_created)) = Inr () \<and>
   step env0 (EndSession ''session_19990101_000000_nobody'') sys_created = sys_created"
proof -
  have h: "map_of (active_sessions sys_created) ''session_19990101_000000_nobody'' = None"
    by code_simp
  from end_session_unknown_is_noop [OF h, of env0] h show ?thesis by blast
qed

section \<open>Issuing credentials\<close>

lemma generate_access_token_raises:
  "access_token_error e = Some ex \<Longrightarrow>
     generate_access_token e ident room_name is_agnt can_pub can_sub = Inl ex"
  by (simp add: generate_access_token_def)


section \<open>Looking up an available agent\<close>

text \<open>
  C7, as stated, fails. The lookup returns the first idle agent and changes nothing: the
  model of the lookup returns no registry because no statement of the source assigns to an
  agent. On the registry of the default agents the agent returned is still \<open>IDLE\<close> in that
  registry, so a second lookup returns it again.
\<close>

theorem lookup_does_not_reserve:
  "get_available_agent_a (agents sys0) = Some (new_AgentA ''agent_a_001'' ''Sarah (Agent A)'') \<and>
   map_option agent_state (get_agent (agents sys0) ''agent_a_001'') = Some IDLE \<and>
   get_available_agent_b (agents sys0) (Some ''Technical'') =
     Some (new_AgentB ''agent_b_technical'' ''Lisa (Technical)'' ''Technical'') \<and>
   map_option agent_state (get_agent (agents sys0) ''agent_b_technical'') = Some IDLE"
  by code_simp

lemma get_available_agent_a_first_idle:
  "get_available_agent_a reg = Some a \<Longrightarrow>
     BaseAgent.state a = IDLE \<and>
     (\<exists>pre k post. reg = pre @ (k, InstA a) # post \<and> get_available_agent_a pre = None)"
proof (induction reg rule: get_available_agent_a.induct)
  case 1
  then show ?case by simp
next
  case (2 k a' rest)
  show ?case
  proof (cases "BaseAgent.state a' = IDLE")
    case True
    with 2 have "a' = a" by simp
    with True show ?thesis by (intro conjI exI [of _ "[]"] exI [of _ k] exI [of _ rest]) simp_all
  next
    case False
    with 2 obtain pre k' post where st: "BaseAgent.state a = IDLE"
      and eq: "rest = pre @ (k', InstA a) # post" and no: "get_available_agent_a pre = None"
      by auto
    from eq have "(k, InstA a') # rest = ((k, InstA a') # pre) @ (k', InstA a) # post" by simp
    moreover from no False have "get_available_agent_a ((k, InstA a') # pre) = None" by simp
    ultimately show ?thesis using st by blast
  qed
next
  case (3 k b rest)
  then obtain pre k' post where st: "BaseAgent.state a = IDLE"
      and eq: "rest = pre @ (k', InstA a) # post" and no: "get_available_agent_a pre = None"
    by auto
  from eq have "(k, InstB b) # rest = ((k, InstB b) # pre) @ (k', InstA a) # post" by simp
  moreover from no have "get_available_agent_a ((k, InstB b) # pre) = None" by simp
  ultimately show ?case using st by blast
qed

lemma get_available_agent_b_first_idle:
  "get_available_agent_b reg spec = Some b \<Longrightarrow>
     BaseAgent.state b = IDLE \<and> (spec = None \<or> spec = Some (specialty b)) \<and>
     (\<exists>pre k post. reg = pre @ (k, InstB b) # post \<and> get_available_agent_b pre spec = None)"
proof (induction reg spec rule: get_available_agent_b.induct)
  case (1 spec)
  then show ?case by simp
next
  case (2 k b' rest spec)
  show ?case
  proof (cases "BaseAgent.state b' = IDLE \<and> (spec = None \<or> Some (specialty b') = spec)")
    case True
    with 2 have "b' = b" by simp
    with True show ?thesis
      by (intro conjI exI [of _ "[]"] exI [of _ k] exI [of _ rest]) auto
  next
    case False
    with 2 obtain pre k' post where st: "BaseAgent.state b = IDLE"
      and sp: "spec = None \<or> spec = Some (specialty b)"
      and eq: "rest = pre @ (k', InstB b) # post" and no: "get_available_agent_b pre spec = None"
      by auto
    from eq have "(k, InstB b') # rest = ((k, InstB b') # pre) @ (k', InstB b) # post" by simp
    moreover from no False have "get_available_agent_b ((k, InstB b') # pre) spec = None" by simp
    ultimately show ?thesis using st sp by blast
  qed
next
  case (3 k a rest spec)
  then obtain pre k' post where st: "BaseAgent.state b = IDLE"
      and sp: "spec = None \<or> spec = Some (specialty b)"
      and eq: "rest = pre @ (k', InstB b) # post" and no: "get_available_agent_b pre spec = None"
    by auto
  from eq have "(k, InstA a) # rest = ((k, InstA a) # pre) @ (k', InstB b) # post" by simp
  moreover from no have "get_available_agent_b ((k, InstA a) # pre) spec = None" by simp
  ultimately show ?case using st sp by blast
qed

text \<open>
  C7, amended. The lookup is read-only. Whenever it returns an agent, that agent is in the
  registry with state \<open>IDLE\<close> (and, for role B with a specialty asked for, has that
  specialty), and it is the first such agent in registration order: the lookup finds
  nothing in the part of the registry before it. The lookup changes no agent, so after
  the call the agent returned is still \<open>IDLE\<close> and a second lookup on the same
  registry returns it again.
\<close>

theorem find_available_is_pure_lookup:
  "(get_available_agent_a reg = Some a \<longrightarrow>
      BaseAgent.state a = IDLE \<and>
      (\<exists>pre k post. reg = pre @ (k, InstA a) # post \<and> get_available_agent_a pre = None)) \<and>
   (get_available_agent_b reg spec = Some b \<longrightarrow>
      BaseAgent.state b = IDLE \<and> (spec = None \<or> spec = Some (specialty b)) \<and>
      (\<exists>pre k post. reg = pre @ (k, InstB b) # post \<and> get_available_agent_b pre spec = None))"
  using get_available_agent_a_first_idle get_available_agent_b_first_idle by blast

theorem find_available_is_pure_lookup_witness:
  "get_available_agent_a (agents sys0) = Some (new_AgentA ''agent_a_001'' ''Sarah (Agent A)'') \<and>
   BaseAgent.state (new_AgentA ''agent_a_001'' ''Sarah (Agent A)'') = IDLE \<and>
   get_available_agent_b (agents sys0) (Some ''Technical'') =
     Some (new_AgentB ''agent_b_technical'' ''Lisa (Technical)'' ''Technical'') \<and>
   BaseAgent.state (new_AgentB ''agent_b_technical'' ''Lisa (Technical)'' ''Technical'') = IDLE"
proof -
  have ha: "get_available_agent_a (agents sys0) = Some (new_AgentA ''agent_a_001'' ''Sarah (Agent A)'')"
    by code_simp
  have hb: "get_available_agent_b (agents sys0) (Some ''Technical'') =
     Some (new_AgentB ''agent_b_technical'' ''Lisa (Technical)'' ''Technical'')"
    by code_simp
  from find_available_is_pure_lookup
         [of "agents sys0" "new_AgentA ''agent_a_001'' ''Sarah (Agent A)''" "Some ''Technical''"
             "new_AgentB ''agent_b_technical'' ''Lisa (Technical)'' ''Technical''"] ha hb
  show ?thesis by blast
qed

section \<open>Transcripts\<close>

text \<open>
  C9, as stated, fails. Agent A accepts an incoming call by setting its transcript to the
  empty list before it records the greeting. In the run above agent A holds two entries
  after the explanation; creating a next call for the same agent leaves one entry.
\<close>

theorem accepting_a_call_clears_the_transcript:
  "map_option (length \<circ> agent_history) (get_agent (agents sys_explained) ''agent_a_001'') = Some 2 \<and>
   map_option (length \<circ> agent_history)
     (get_agent (agents (step env0 (CreateCall ''cust2'' (Some ''agent_a_001'')) sys_explained))
        ''agent_a_001'') = Some 1"
  by code_simp

text \<open>
  C9, amended. Every operation on an agent other than agent A accepting an incoming call
  leaves the transcript unchanged or appends entries at its end (the old transcript is a
  prefix of the new one): adding a conversation entry, processing a conversation turn,
  initiating, explaining and completing a transfer for agent A; accepting a call,
  receiving the transfer context, processing a turn and ending the call for agent B.
  Agent A accepting an incoming call replaces its transcript by the greeting alone.
\<close>

theorem transcript_append_only_except_accept:
  "prefix (conversation_history a) (conversation_history (add_to_conversation e spk txt a)) \<and>
   prefix (conversation_history a)
     (conversation_history (snd (AgentA_process_conversation e msg spk a))) \<and>
   prefix (conversation_history a)
     (conversation_history (fst (snd (AgentA_initiate_transfer e ib rsn a ss)))) \<and>
   prefix (conversation_history a)
     (conversation_history (snd (AgentA_explain_transfer_to_agent_b e ib a))) \<and>
   prefix (conversation_history a)
     (conversation_history (fst (snd (AgentA_complete_transfer e a ss)))) \<and>
   prefix (conversation_history b)
     (conversation_history (snd (AgentB_handle_incoming_call e sid b))) \<and>
   prefix (conversation_history b)
     (conversation_history (AgentB_receive_transfer_context e expl summary b)) \<and>
   prefix (conversation_history b)
     (conversation_history (snd (AgentB_process_conversation e msg spk b))) \<and>
   prefix (conversation_history b)
     (conversation_history (fst (snd (AgentB_end_call e b ss)))) \<and>
   conversation_history (snd (AgentA_handle_incoming_call e sid a)) =
     [\<lparr>speaker = ''Agent A'', content = greeting, timestamp = now_isoformat e\<rparr>]"
proof (intro conjI)
  show "prefix (conversation_history a) (conversation_history (add_to_conversation e spk txt a))"
    by (simp add: add_to_conversation_def)
  show "prefix (conversation_history a)
     (conversation_history (snd (AgentA_process_conversation e msg spk a)))"
    by (simp add: AgentA_process_conversation_def add_to_conversation_def Let_def prefix_def)
  show "prefix (conversation_history a)
     (conversation_history (fst (snd (AgentA_initiate_transfer e ib rsn a ss))))"
    by (simp add: AgentA_initiate_transfer_def Let_def split: option.splits prod.splits sum.splits)
  show "prefix (conversation_history a)
     (conversation_history (snd (AgentA_explain_transfer_to_agent_b e ib a)))"
    by (simp add: AgentA_explain_transfer_to_agent_b_def add_to_conversation_def
             split: option.splits)
  show "prefix (conversation_history a)
     (conversation_history (fst (snd (AgentA_complete_transfer e a ss))))"
    by (simp add: AgentA_complete_transfer_def Let_def)
  show "prefix (conversation_history b)
     (conversation_history (snd (AgentB_handle_incoming_call e sid b)))"
    by (simp add: AgentB_handle_incoming_call_def)
  show "prefix (conversation_history b)
     (conversation_history (AgentB_receive_transfer_context e expl summary b))"
    by (simp add: AgentB_receive_transfer_context_def add_to_conversation_def Let_def prefix_def)
  show "prefix (conversation_history b)
     (conversation_history (snd (AgentB_process_conversation e msg spk b)))"
    by (simp add: AgentB_process_conversation_def add_to_conversation_def Let_def prefix_def)
  show "prefix (conversation_history b)
     (conversation_history (fst (snd (AgentB_end_call e b ss))))"
    by (simp add: AgentB_end_call_def end_session_def split: option.splits prod.splits sum.splits)
  show "conversation_history (snd (AgentA_handle_incoming_call e sid a)) =
     [\<lparr>speaker = ''Agent A'', content = greeting, timestamp = now_isoformat e\<rparr>]"
    by (simp add: AgentA_handle_incoming_call_def add_to_conversation_def)
qed

section \<open>Completing a transfer that was never initiated\<close>

lemma map_of_update_same: "map_of (AList.update k v al) k = Some v"
  by (simp add: update_conv')

lemma AgentA_complete_transfer_truthy:
  "truthy (current_session_id a) \<Longrightarrow>
     fst (AgentA_complete_transfer e a ss) = True \<and>
     fst (snd (AgentA_complete_transfer e a ss)) =
       a\<lparr>BaseAgent.state := IDLE, current_session_id := None\<rparr> \<and>
     (\<forall>k sess. map_of ss k = Some sess \<longrightarrow>
        map_of (snd (snd (AgentA_complete_transfer e a ss))) k =
          Some (if current_session_id a = Some k
                then sess\<lparr>CallSession.call_summary := generate_call_summary e a\<rparr> else sess))"
  by (auto simp: AgentA_complete_transfer_def get_session_def Let_def update_conv'
           split: option.splits)

text \<open>
  C1 says that completing a transfer on a session with no prior initiation fails with
  NOT_FOUND and leaves agent A and the session unchanged. What the code does, for every
  agent A that has a current session and every session of the store on which no transfer
  was ever initiated (it has no agent B): the handler answers with status 500, raised by
  the room service when it finds no agent B on the session, and the session keeps its
  state, but agent A has already been set to \<open>IDLE\<close> and has lost its current session.
\<close>

theorem complete_transfer_without_initiate_resets_agent:
  assumes ga: "get_agent (agents s) a_id = Some (InstA a)"
    and cur: "truthy (current_session_id a)"
    and se: "map_of (active_sessions s) sid = Some sess"
    and nob: "\<not> truthy (CallSession.agent_b_identity sess)"
  shows "fst (complete_transfer e sid a_id s) =
           Inl (HTTPException_str 500 (ValueError (''No Agent B assigned for session '' @ sid))) \<and>
         get_agent (agents (snd (complete_transfer e sid a_id s))) a_id =
           Some (InstA (a\<lparr>BaseAgent.state := IDLE, current_session_id := None\<rparr>)) \<and>
         session_state sid (snd (complete_transfer e sid a_id s)) = session_state sid s"
proof -
  obtain ok a' ss1 where ac: "AgentA_complete_transfer e a (active_sessions s) = (ok, a', ss1)"
    by (cases "AgentA_complete_transfer e a (active_sessions s)")
  note K = AgentA_complete_transfer_truthy [OF cur, of e "active_sessions s"]
  from K ac have ok: "ok" by simp
  from K ac have a': "a' = a\<lparr>BaseAgent.state := IDLE, current_session_id := None\<rparr>" by simp
  let ?sess1 = "if current_session_id a = Some sid
                then sess\<lparr>CallSession.call_summary := generate_call_summary e a\<rparr> else sess"
  from K ac se have m1: "map_of ss1 sid = Some ?sess1" by simp
  from nob have nob1: "\<not> truthy (CallSession.agent_b_identity ?sess1)" by simp
  from m1 nob1 have cs: "complete_transfer_service e sid ss1 =
      (Inl (ValueError (''No Agent B assigned for session '' @ sid)), ss1)"
    by (simp add: complete_transfer_service_def)
  from ga ac ok cs have res: "complete_transfer e sid a_id s =
      (Inl (HTTPException_str 500 (ValueError (''No Agent B assigned for session '' @ sid))),
       s\<lparr>agents := AList.update a_id (InstA a') (agents s), active_sessions := ss1\<rparr>)"
    by (simp add: complete_transfer_def wrap_def)
  from res have "fst (complete_transfer e sid a_id s) =
           Inl (HTTPException_str 500 (ValueError (''No Agent B assigned for session '' @ sid)))"
    by simp
  moreover from res a' have "get_agent (agents (snd (complete_transfer e sid a_id s))) a_id =
           Some (InstA (a\<lparr>BaseAgent.state := IDLE, current_session_id := None\<rparr>))"
    by (simp add: get_agent_def map_of_update_same)
  moreover from res m1 se
  have "session_state sid (snd (complete_transfer e sid a_id s)) = session_state sid s"
    by (simp add: session_state_def)
  ultimately show ?thesis by blast
qed

theorem complete_transfer_without_initiate_resets_agent_witness:
  "get_agent (agents sys_join_tried) ''agent_a_001'' = Some (InstA agent_a_created) \<and>
   BaseAgent.state agent_a_created = IN_CALL \<and>
   current_session_id agent_a_created = Some sid1 \<and>
   transfer_requests agent_a_created = [] \<and>
   map_of (active_sessions sys_join_tried) sid1 = Some session_created \<and>
   CallSession.agent_b_identity session_created = None \<and>
   fst (complete_transfer env0 sid1 ''agent_a_001'' sys_join_tried) =
     Inl (HTTPException_str 500 (ValueError (''No Agent B assigned for session '' @ sid1))) \<and>
   map_option agent_state
     (get_agent (agents (snd (complete_transfer env0 sid1 ''agent_a_001'' sys_join_tried)))
        ''agent_a_001'') = Some IDLE \<and>
   map_option agent_current_session
     (get_agent (agents (snd (complete_transfer env0 sid1 ''agent_a_001'' sys_join_tried)))
        ''agent_a_001'') = Some None \<and>
   session_state sid1 (snd (complete_transfer env0 sid1 ''agent_a_001'' sys_join_tried)) =
     Some WAITING"
proof -
  have ga: "get_agent (agents sys_join_tried) ''agent_a_001'' = Some (InstA agent_a_created)"
    by code_simp
  have st: "BaseAgent.state agent_a_created = IN_CALL" by code_simp
  have cu: "current_session_id agent_a_created = Some sid1" by code_simp
  have cur: "truthy (current_session_id agent_a_created)" by code_simp
  have tr: "transfer_requests agent_a_created = []" by code_simp
  have se: "map_of (active_sessions sys_join_tried) sid1 = Some session_created" by code_simp
  have nb: "CallSession.agent_b_identity session_created = None" by code_simp
  then have nob: "\<not> truthy (CallSession.agent_b_identity session_created)" by simp
  have w: "session_state sid1 sys_join_tried = Some WAITING" by code_simp
  note T = complete_transfer_without_initiate_resets_agent [OF ga cur se nob, of env0]
  from T have t1: "fst (complete_transfer env0 sid1 ''agent_a_001'' sys_join_tried) =
     Inl (HTTPException_str 500 (ValueError (''No Agent B assigned for session '' @ sid1)))"
    by (rule conjunct1)
  from T have t2: "map_option agent_state
     (get_agent (agents (snd (complete_transfer env0 sid1 ''agent_a_001'' sys_join_tried)))
        ''agent_a_001'') = Some IDLE"
    by simp
  from T have t3: "map_option agent_current_session
     (get_agent (agents (snd (complete_transfer env0 sid1 ''agent_a_001'' sys_join_tried)))
        ''agent_a_001'') = Some None"
    by simp
  from T w have t4: "session_state sid1
      (snd (complete_transfer env0 sid1 ''agent_a_001'' sys_join_tried)) = Some WAITING"
    by simp
  from ga st cu tr se nb t1 t2 t3 t4 show ?thesis by blast
qed

section \<open>Room creation failing during the first phase\<close>

lemma initiate_warm_transfer_present:
  "map_of ss sid = Some sess \<Longrightarrow> create_room_result e = Some r \<Longrightarrow>
   initiate_warm_transfer e sid b rsn ss =
     (Inr r, AList.update sid
        (sess\<lparr>CallSession.agent_b_identity := Some b, transfer_reason := rsn,
              CallSession.state := TRANSFERRING, CallSession.transfer_room_sid := Some r\<rparr>) ss)"
  by (simp add: initiate_warm_transfer_def create_room_def Let_def)

lemma initiate_warm_transfer_no_room:
  "map_of ss sid = Some sess \<Longrightarrow> create_room_result e = None \<Longrightarrow>
   initiate_warm_transfer e sid b rsn ss =
     (Inl ProviderError, AList.update sid
        (sess\<lparr>CallSession.agent_b_identity := Some b, transfer_reason := rsn,
              CallSession.state := TRANSFERRING\<rparr>) ss)"
  by (simp add: initiate_warm_transfer_def create_room_def Let_def)

lemma initiate_warm_transfer_absent:
  "map_of ss sid = None \<Longrightarrow>
   initiate_warm_transfer e sid b rsn ss =
     (Inl (ValueError (''Session '' @ sid @ '' not found'')), ss)"
  by (simp add: initiate_warm_transfer_def)

text \<open>
  C3 says that when the transfer room cannot be created, agent A is rolled back to
  \<open>IN_CALL\<close>, an error is returned and the session is left in its last committed state,
  with no agent B, no transfer room and no transfer reason. What the code does, for every
  agent A whose current session is in the store, with agent B known, when the room
  provider raises: agent A is set to \<open>IN_CALL\<close> and the handler answers with status 500,
  but the session is left \<open>TRANSFERRING\<close> with agent B and the reason set; only its
  transfer room is what it was.
\<close>

theorem room_failure_leaves_session_transferring:
  assumes ga: "get_agent (agents s) (TransferRequest.agent_a_identity req) = Some (InstA a)"
    and gb: "get_agent (agents s) (TransferRequest.agent_b_identity req) = Some ag_b"
    and cur: "current_session_id a = Some k" and ne: "k \<noteq> []"
    and se: "map_of (active_sessions s) k = Some sess"
    and nr: "create_room_result e = None"
  shows "fst (initiate_transfer e path_sid req s) =
           Inl (HTTPException_str 500 (HTTPException 500 ''Failed to initiate transfer'')) \<and>
         get_agent (agents (snd (initiate_transfer e path_sid req s)))
             (TransferRequest.agent_a_identity req) =
           Some (InstA (a\<lparr>BaseAgent.state := IN_CALL\<rparr>)) \<and>
         map_of (active_sessions (snd (initiate_transfer e path_sid req s))) k =
           Some (sess\<lparr>CallSession.agent_b_identity := Some (TransferRequest.agent_b_identity req),
                      transfer_reason :=
                        Some (or_else (TransferRequest.reason req) ''Customer transfer request''),
                      CallSession.state := TRANSFERRING\<rparr>)"
proof -
  let ?sess' = "sess\<lparr>CallSession.agent_b_identity := Some (TransferRequest.agent_b_identity req),
                      transfer_reason :=
                        Some (or_else (TransferRequest.reason req) ''Customer transfer request''),
                      CallSession.state := TRANSFERRING\<rparr>"
  let ?ss' = "AList.update k ?sess' (active_sessions s)"
  from se nr have iw: "initiate_warm_transfer e k (TransferRequest.agent_b_identity req)
        (Some (or_else (TransferRequest.reason req) ''Customer transfer request''))
        (active_sessions s) = (Inl ProviderError, ?ss')"
    by (rule initiate_warm_transfer_no_room)
  from cur ne iw have ai: "AgentA_initiate_transfer e (TransferRequest.agent_b_identity req)
        (or_else (TransferRequest.reason req) ''Customer transfer request'') a (active_sessions s) =
      (None, a\<lparr>BaseAgent.state := IN_CALL\<rparr>, ?ss')"
    by (simp add: AgentA_initiate_transfer_def Let_def)
  from ga gb ai have res: "initiate_transfer e path_sid req s =
      (Inl (HTTPException_str 500 (HTTPException 500 ''Failed to initiate transfer'')),
       s\<lparr>agents := AList.update (TransferRequest.agent_a_identity req)
                     (InstA (a\<lparr>BaseAgent.state := IN_CALL\<rparr>)) (agents s),
         active_sessions := ?ss'\<rparr>)"
    by (simp add: initiate_transfer_def wrap_def)
  from res show ?thesis by (simp add: get_agent_def map_of_update_same)
qed

theorem room_failure_leaves_session_transferring_witness:
  "get_agent (agents sys_join_tried) (TransferRequest.agent_a_identity req1) =
     Some (InstA agent_a_created) \<and>
   current_session_id agent_a_created = Some sid1 \<and>
   map_of (active_sessions sys_join_tried) sid1 = Some session_created \<and>
   create_room_result env_no_room = None \<and>
   fst (initiate_transfer env_no_room sid1 req1 sys_join_tried) =
     Inl (HTTPException_str 500 (HTTPException 500 ''Failed to initiate transfer'')) \<and>
   map_option agent_state
     (get_agent (agents (snd (initiate_transfer env_no_room sid1 req1 sys_join_tried)))
        ''agent_a_001'') = Some IN_CALL \<and>
   map_of (active_sessions (snd (initiate_transfer env_no_room sid1 req1 sys_join_tried))) sid1 =
     Some (session_created\<lparr>CallSession.agent_b_identity := Some ''agent_b_billing'',
                           transfer_reason := Some ''billing'',
                           CallSession.state := TRANSFERRING\<rparr>) \<and>
   session_state sid1 (snd (initiate_transfer env_no_room sid1 req1 sys_join_tried)) =
     Some TRANSFERRING \<and>
   map_option CallSession.transfer_room_sid
     (map_of (active_sessions (snd (initiate_transfer env_no_room sid1 req1 sys_join_tried)))
        sid1) = Some None"
proof -
  have ga: "get_agent (agents sys_join_tried) (TransferRequest.agent_a_identity req1) =
     Some (InstA agent_a_created)" by code_simp
  have gb: "get_agent (agents sys_join_tried) (TransferRequest.agent_b_identity req1) =
     Some (InstB (new_AgentB ''agent_b_billing'' ''Mike (Billing)'' ''Billing''))" by code_simp
  have cu: "current_session_id agent_a_created = Some sid1" by code_simp
  have ne: "sid1 \<noteq> []" by code_simp
  have se: "map_of (active_sessions sys_join_tried) sid1 = Some session_created" by code_simp
  have nr: "create_room_result env_no_room = None" by code_simp
  have ra: "TransferRequest.agent_a_identity req1 = ''agent_a_001''" by code_simp
  have rb: "TransferRequest.agent_b_identity req1 = ''agent_b_billing''" by code_simp
  have rr: "or_else (TransferRequest.reason req1) ''Customer transfer request'' = ''billing''"
    by code_simp
  have tn: "CallSession.transfer_room_sid session_created = None" by code_simp
  note T = room_failure_leaves_session_transferring [OF ga gb cu ne se nr, of sid1]
  from T have t1: "fst (initiate_transfer env_no_room sid1 req1 sys_join_tried) =
     Inl (HTTPException_str 500 (HTTPException 500 ''Failed to initiate transfer''))"
    by (rule conjunct1)
  from T have t2: "map_option agent_state
     (get_agent (agents (snd (initiate_transfer env_no_room sid1 req1 sys_join_tried)))
        ''agent_a_001'') = Some IN_CALL"
    by (simp add: ra)
  from T have t3: "map_of
      (active_sessions (snd (initiate_transfer env_no_room sid1 req1 sys_join_tried))) sid1 =
     Some (session_created\<lparr>CallSession.agent_b_identity := Some ''agent_b_billing'',
                           transfer_reason := Some ''billing'',
                           CallSession.state := TRANSFERRING\<rparr>)"
    by (simp add: rb rr)
  from t3 have t4: "session_state sid1
      (snd (initiate_transfer env_no_room sid1 req1 sys_join_tried)) = Some TRANSFERRING"
    by (simp add: session_state_def)
  from t3 tn have t5: "map_option CallSession.transfer_room_sid
     (map_of (active_sessions (snd (initiate_transfer env_no_room sid1 req1 sys_join_tried)))
        sid1) = Some None"
    by simp
  from ga cu se nr t1 t2 t3 t4 t5 show ?thesis by blast
qed

section \<open>Initiating a transfer\<close>

text \<open>
  C2, as stated, fails. No statement of the first phase reads the session's state. On the
  session that was created and never joined (state \<open>WAITING\<close>) initiating a transfer
  creates the transfer room and writes agent B, the reason, the room and the state
  \<open>TRANSFERRING\<close> into the session; the error the handler then answers with comes
  from issuing the tokens, after the session is written, and is no state violation.
\<close>

theorem initiate_transfer_on_waiting_session_writes_session:
  "session_state sid1 sys_join_tried = Some WAITING \<and>
   map_option CallSession.transfer_room_sid (map_of (active_sessions sys_join_tried) sid1) =
     Some None \<and>
   fst (initiate_transfer env0 sid1 req1 sys_join_tried) =
     Inl (HTTPException_str 500 token_type_error) \<and>
   session_state sid1 (snd (initiate_transfer env0 sid1 req1 sys_join_tried)) =
     Some TRANSFERRING \<and>
   map_option CallSession.agent_b_identity
     (map_of (active_sessions (snd (initiate_transfer env0 sid1 req1 sys_join_tried))) sid1) =
     Some (Some ''agent_b_billing'') \<and>
   map_option transfer_reason
     (map_of (active_sessions (snd (initiate_transfer env0 sid1 req1 sys_join_tried))) sid1) =
     Some (Some ''billing'') \<and>
   map_option CallSession.transfer_room_sid
     (map_of (active_sessions (snd (initiate_transfer env0 sid1 req1 sys_join_tried))) sid1) =
     Some (Some ''RM_1'')"
  by code_simp

text \<open>
  C2, amended. Initiating a transfer never reads the session's state, and the session it
  works on is agent A's current session, not the session named in the request path. With
  agent A and agent B known to the registry:

  \<^item> when agent A's current session id is not empty and in the store, and the room is
    created, that session, in whatever state it is, gets agent B, the transfer reason and
    the transfer room set and its state set to \<open>TRANSFERRING\<close>, whatever the call then
    answers. The call answers with the transfer room only when the room id is not empty
    and the tokens for the session of the request path can be issued; otherwise it
    answers with status 500, the session staying written;

  \<^item> when agent A has no current session, or its current session is not in the store,
    the call fails with status 500 and leaves every session unchanged, so that no
    transfer room is recorded.
\<close>

theorem initiate_transfer_ignores_session_state:
  assumes ga: "get_agent (agents s) (TransferRequest.agent_a_identity req) = Some (InstA a)"
    and gb: "get_agent (agents s) (TransferRequest.agent_b_identity req) = Some ag_b"
  shows "(current_session_id a = Some k \<and> k \<noteq> [] \<and>
          map_of (active_sessions s) k = Some sess \<and>
          create_room_result e = Some r \<longrightarrow>
            map_of (active_sessions (snd (initiate_transfer e path_sid req s))) k =
              Some (sess\<lparr>CallSession.agent_b_identity := Some (TransferRequest.agent_b_identity req),
                         transfer_reason :=
                           Some (or_else (TransferRequest.reason req) ''Customer transfer request''),
                         CallSession.state := TRANSFERRING,
                         CallSession.transfer_room_sid := Some r\<rparr>) \<and>
            fst (initiate_transfer e path_sid req s) =
              (if r = []
               then Inl (HTTPException_str 500 (HTTPException 500 ''Failed to initiate transfer''))
               else case get_transfer_room_tokens e path_sid
                           (active_sessions (snd (initiate_transfer e path_sid req s))) of
                      Inl ex \<Rightarrow> Inl (HTTPException_str 500 ex)
                    | Inr toks \<Rightarrow>
                        Inr (InitiateTransferResponse r toks
                               (TransferRequest.agent_b_identity req)))) \<and>
         (\<not> truthy (current_session_id a) \<or>
          (current_session_id a = Some k \<and> map_of (active_sessions s) k = None) \<longrightarrow>
            fst (initiate_transfer e path_sid req s) =
              Inl (HTTPException_str 500 (HTTPException 500 ''Failed to initiate transfer'')) \<and>
            active_sessions (snd (initiate_transfer e path_sid req s)) = active_sessions s)"
proof (intro conjI impI)
  assume h: "current_session_id a = Some k \<and> k \<noteq> [] \<and>
          map_of (active_sessions s) k = Some sess \<and> create_room_result e = Some r"
  let ?sess' = "sess\<lparr>CallSession.agent_b_identity := Some (TransferRequest.agent_b_identity req),
                         transfer_reason :=
                           Some (or_else (TransferRequest.reason req) ''Customer transfer request''),
                         CallSession.state := TRANSFERRING,
                         CallSession.transfer_room_sid := Some r\<rparr>"
  let ?ss' = "AList.update k ?sess' (active_sessions s)"
  let ?a' = "a\<lparr>BaseAgent.state := IN_TRANSFER,
                      transfer_requests :=
                        AList.update k
                          \<lparr>transfer_info.agent_b_identity = TransferRequest.agent_b_identity req,
                           transfer_info.reason =
                             or_else (TransferRequest.reason req) ''Customer transfer request'',
                           transfer_info.call_summary =
                             or_else (generate_call_summary e (a\<lparr>BaseAgent.state := IN_TRANSFER\<rparr>))
                               placeholder_summary,
                           transfer_info.transfer_room_sid = r,
                           initiated_at = now_isoformat e\<rparr>
                          (transfer_requests a)\<rparr>"
  let ?s' = "s\<lparr>agents := AList.update (TransferRequest.agent_a_identity req) (InstA ?a') (agents s),
               active_sessions := ?ss'\<rparr>"
  from h have iw: "initiate_warm_transfer e k (TransferRequest.agent_b_identity req)
        (Some (or_else (TransferRequest.reason req) ''Customer transfer request''))
        (active_sessions s) = (Inr r, ?ss')"
    by (simp add: initiate_warm_transfer_present)
  from h iw have ai: "AgentA_initiate_transfer e (TransferRequest.agent_b_identity req)
        (or_else (TransferRequest.reason req) ''Customer transfer request'') a (active_sessions s) =
      (Some r, ?a', ?ss')"
    by (simp add: AgentA_initiate_transfer_def Let_def)
  from ga gb ai have st: "snd (initiate_transfer e path_sid req s) = ?s'"
    by (simp add: initiate_transfer_def Let_def split: sum.splits)
  from st show "map_of (active_sessions (snd (initiate_transfer e path_sid req s))) k =
      Some ?sess'"
    by (simp add: map_of_update_same)
  from ga gb ai have "fst (initiate_transfer e path_sid req s) =
              (if r = []
               then Inl (HTTPException_str 500 (HTTPException 500 ''Failed to initiate transfer''))
               else case get_transfer_room_tokens e path_sid ?ss' of
                      Inl ex \<Rightarrow> Inl (HTTPException_str 500 ex)
                    | Inr toks \<Rightarrow>
                        Inr (InitiateTransferResponse r toks
                               (TransferRequest.agent_b_identity req)))"
    by (simp add: initiate_transfer_def Let_def wrap_def split: sum.splits)
  with st show "fst (initiate_transfer e path_sid req s) =
              (if r = []
               then Inl (HTTPException_str 500 (HTTPException 500 ''Failed to initiate transfer''))
               else case get_transfer_room_tokens e path_sid
                           (active_sessions (snd (initiate_transfer e path_sid req s))) of
                      Inl ex \<Rightarrow> Inl (HTTPException_str 500 ex)
                    | Inr toks \<Rightarrow>
                        Inr (InitiateTransferResponse r toks
                               (TransferRequest.agent_b_identity req)))"
    by simp
next
  assume h: "\<not> truthy (current_session_id a) \<or>
          (current_session_id a = Some k \<and> map_of (active_sessions s) k = None)"
  from ga gb h show "fst (initiate_transfer e path_sid req s) =
              Inl (HTTPException_str 500 (HTTPException 500 ''Failed to initiate transfer''))"
    by (cases "current_session_id a")
       (auto simp: initiate_transfer_def AgentA_initiate_transfer_def Let_def wrap_def
                   initiate_warm_transfer_absent)
  from ga gb h show "active_sessions (snd (initiate_transfer e path_sid req s)) = active_sessions s"
    by (cases "current_session_id a")
       (auto simp: initiate_transfer_def AgentA_initiate_transfer_def Let_def wrap_def
                   initiate_warm_transfer_absent)
qed

theorem initiate_transfer_ignores_session_state_witness:
  "get_agent (agents sys_join_tried) (TransferRequest.agent_a_identity req1) =
     Some (InstA agent_a_created) \<and>
   current_session_id agent_a_created = Some sid1 \<and>
   map_of (active_sessions sys_join_tried) sid1 = Some session_created \<and>
   CallSession.state session_created = WAITING \<and>
   map_of (active_sessions (snd (initiate_transfer env0 sid1 req1 sys_join_tried))) sid1 =
     Some (session_created\<lparr>CallSession.agent_b_identity := Some ''agent_b_billing'',
                           transfer_reason := Some ''billing'',
                           CallSession.state := TRANSFERRING,
                           CallSession.transfer_room_sid := Some ''RM_1''\<rparr>) \<and>
   map_of (active_sessions
       (snd (initiate_transfer env0 ''session_19990101_000000_nobody'' req1 sys_join_tried))) sid1 =
     Some (session_created\<lparr>CallSession.agent_b_identity := Some ''agent_b_billing'',
                           transfer_reason := Some ''billing'',
                           CallSession.state := TRANSFERRING,
                           CallSession.transfer_room_sid := Some ''RM_1''\<rparr>) \<and>
   fst (initiate_transfer env0 sid1 req1 sys_join_tried) =
     Inl (HTTPException_str 500 token_type_error) \<and>
   \<not> truthy (current_session_id (new_AgentA ''agent_a_001'' ''Sarah (Agent A)'')) \<and>
   fst (initiate_transfer env0 sid1 req1 sys0) =
     Inl (HTTPException_str 500 (HTTPException 500 ''Failed to initiate transfer'')) \<and>
   active_sessions (snd (initiate_transfer env0 sid1 req1 sys0)) = active_sessions sys0"
proof -
  have a1: "get_agent (agents sys_join_tried) (TransferRequest.agent_a_identity req1) =
     Some (InstA agent_a_created)" by code_simp
  have b1: "get_agent (agents sys_join_tried) (TransferRequest.agent_b_identity req1) =
     Some (InstB (new_AgentB ''agent_b_billing'' ''Mike (Billing)'' ''Billing''))" by code_simp
  have c1: "current_session_id agent_a_created = Some sid1" by code_simp
  have d1: "sid1 \<noteq> []" by code_simp
  have e1: "map_of (active_sessions sys_join_tried) sid1 = Some session_created" by code_simp
  have f1: "create_room_result env0 = Some ''RM_1''" by code_simp
  have g1: "CallSession.state session_created = WAITING" by code_simp
  have r1: "TransferRequest.agent_b_identity req1 = ''agent_b_billing''" by code_simp
  have r2: "or_else (TransferRequest.reason req1) ''Customer transfer request'' = ''billing''"
    by code_simp
  have a0: "get_agent (agents sys0) (TransferRequest.agent_a_identity req1) =
     Some (InstA (new_AgentA ''agent_a_001'' ''Sarah (Agent A)''))" by code_simp
  have b0: "get_agent (agents sys0) (TransferRequest.agent_b_identity req1) =
     Some (InstB (new_AgentB ''agent_b_billing'' ''Mike (Billing)'' ''Billing''))" by code_simp
  have c0: "\<not> truthy (current_session_id (new_AgentA ''agent_a_001'' ''Sarah (Agent A)''))"
    by code_simp
  have tk: "get_transfer_room_tokens env0 sid1
      (active_sessions (snd (initiate_transfer env0 sid1 req1 sys_join_tried))) =
      Inl token_type_error" by code_simp
  from initiate_transfer_ignores_session_state
         [OF a1 b1, of sid1 session_created env0 "''RM_1''" sid1] c1 d1 e1 f1
  have p1: "map_of (active_sessions (snd (initiate_transfer env0 sid1 req1 sys_join_tried))) sid1 =
     Some (session_created\<lparr>CallSession.agent_b_identity := Some ''agent_b_billing'',
                           transfer_reason := Some ''billing'',
                           CallSession.state := TRANSFERRING,
                           CallSession.transfer_room_sid := Some ''RM_1''\<rparr>) \<and>
     fst (initiate_transfer env0 sid1 req1 sys_join_tried) =
       Inl (HTTPException_str 500 token_type_error)"
    by (simp add: r1 r2 tk)
  from initiate_transfer_ignores_session_state
         [OF a1 b1, of sid1 session_created env0 "''RM_1''" "''session_19990101_000000_nobody''"]
       c1 d1 e1 f1
  have p2: "map_of (active_sessions
       (snd (initiate_transfer env0 ''session_19990101_000000_nobody'' req1 sys_join_tried))) sid1 =
     Some (session_created\<lparr>CallSession.agent_b_identity := Some ''agent_b_billing'',
                           transfer_reason := Some ''billing'',
                           CallSession.state := TRANSFERRING,
                           CallSession.transfer_room_sid := Some ''RM_1''\<rparr>)"
    by (simp add: r1 r2)
  from initiate_transfer_ignores_session_state
         [OF a0 b0, of sid1 session_created env0 "''RM_1''" sid1] c0
  have p0: "fst (initiate_transfer env0 sid1 req1 sys0) =
     Inl (HTTPException_str 500 (HTTPException 500 ''Failed to initiate transfer'')) \<and>
     active_sessions (snd (initiate_transfer env0 sid1 req1 sys0)) = active_sessions sys0"
    by blast
  from a1 c1 e1 g1 p1 p2 c0 p0 show ?thesis by blast
qed

section \<open>Explaining a transfer\<close>

text \<open>
  C4, as stated, fails in its last part. Receiving the transfer context assigns nothing to
  agent B's state: after the successful explanation of the run above agent B is still
  \<open>IDLE\<close>.
\<close>

theorem explain_transfer_leaves_agent_b_idle:
  "map_option agent_state (get_agent (agents sys_transferring) ''agent_b_billing'') = Some IDLE \<and>
   \<not> isl (fst (explain_transfer env0 sid1 ''agent_a_001'' ''agent_b_billing'' sys_transferring)) \<and>
   map_option agent_state
     (get_agent
        (agents (snd (explain_transfer env0 sid1 ''agent_a_001'' ''agent_b_billing'' sys_transferring)))
        ''agent_b_billing'') = Some IDLE"
  by code_simp

lemma explain_agent_a_some:
  "AgentA_explain_transfer_to_agent_b e b_id a = (Some expl, a') \<Longrightarrow>
     transfer_explanation_result e = Some expl \<and>
     a' = a\<lparr>conversation_history := conversation_history a @
            [\<lparr>speaker = ''Agent A'',
              content = ''[Transfer explanation to '' @ b_id @ '']: '' @ expl,
              timestamp = now_isoformat e\<rparr>]\<rparr>"
  by (auto simp: AgentA_explain_transfer_to_agent_b_def add_to_conversation_def
           split: option.splits)

text \<open>
  C4, amended. On every successful explanation the two identities name an agent A and an
  agent B of the registry; the explanation is appended to agent A's transcript, tagged as
  a transfer explanation to agent B; agent B stores the explanation and the summary as
  its transfer context and appends two lines to its own transcript, the transfer note and
  its acknowledgment; agent B's state is left as it was.
\<close>

theorem explain_transfer_success:
  assumes ok: "explain_transfer e sid a_id b_id s = (Inr resp, s')"
  shows "\<exists>a b expl.
     get_agent (agents s) a_id = Some (InstA a) \<and>
     get_agent (agents s) b_id = Some (InstB b) \<and>
     transfer_explanation_result e = Some expl \<and> expl \<noteq> [] \<and>
     resp = ExplainTransferResponse expl (call_summary_result e) \<and>
     get_agent (agents s') a_id =
       Some (InstA (a\<lparr>conversation_history := conversation_history a @
               [\<lparr>speaker = ''Agent A'',
                 content = ''[Transfer explanation to '' @ b_id @ '']: '' @ expl,
                 timestamp = now_isoformat e\<rparr>]\<rparr>)) \<and>
     get_agent (agents s') b_id =
       Some (InstB (b\<lparr>conversation_history := conversation_history b @
               [\<lparr>speaker = ''Agent A'', content = ''[Transfer]: '' @ expl,
                 timestamp = now_isoformat e\<rparr>,
                \<lparr>speaker = ''Agent B'', content = acknowledgment b,
                 timestamp = now_isoformat e\<rparr>],
               transfer_context :=
                 Some \<lparr>explanation = expl,
                       transfer_ctx.call_summary = or_else (call_summary_result e) [],
                       received_at = now_isoformat e\<rparr>\<rparr>)) \<and>
     map_option agent_state (get_agent (agents s') b_id) = Some (BaseAgent.state b)"
proof -
  from ok obtain a ag_b where ga: "get_agent (agents s) a_id = Some (InstA a)"
    and gb: "get_agent (agents s) b_id = Some ag_b"
    by (auto simp: explain_transfer_def split: option.splits agent.splits)
  obtain eo a' where ex: "AgentA_explain_transfer_to_agent_b e b_id a = (eo, a')"
    by (cases "AgentA_explain_transfer_to_agent_b e b_id a")
  let ?s1 = "s\<lparr>agents := AList.update a_id (InstA a') (agents s)\<rparr>"
  from ok ga gb ex have tr: "truthy eo"
    by (auto simp: explain_transfer_def Let_def split: if_splits)
  then obtain expl where eo: "eo = Some expl" and ne: "expl \<noteq> []"
    by (cases eo) auto
  from ex eo have ter: "transfer_explanation_result e = Some expl"
    and a': "a' = a\<lparr>conversation_history := conversation_history a @
            [\<lparr>speaker = ''Agent A'',
              content = ''[Transfer explanation to '' @ b_id @ '']: '' @ expl,
              timestamp = now_isoformat e\<rparr>]\<rparr>"
    using explain_agent_a_some by blast+
  from a' have sm: "generate_call_summary e a' = call_summary_result e"
    by (simp add: generate_call_summary_def)
  from ok ga gb ex eo ne obtain b where gb1: "get_agent (agents ?s1) b_id = Some (InstB b)"
    by (auto simp: explain_transfer_def Let_def split: option.splits agent.splits)
  have neq: "a_id \<noteq> b_id"
  proof
    assume "a_id = b_id"
    with gb1 show False by (simp add: get_agent_def update_conv')
  qed
  with gb1 have gb0: "get_agent (agents s) b_id = Some (InstB b)"
    by (simp add: get_agent_def update_conv')
  from ok ga gb ex eo ne gb1 sm
  have res: "resp = ExplainTransferResponse expl (call_summary_result e)"
    and s': "s' = ?s1\<lparr>agents := AList.update b_id
                 (InstB (AgentB_receive_transfer_context e expl
                           (or_else (call_summary_result e) []) b)) (agents ?s1)\<rparr>"
    by (auto simp: explain_transfer_def Let_def)
  have rb: "AgentB_receive_transfer_context e expl (or_else (call_summary_result e) []) b =
      b\<lparr>conversation_history := conversation_history b @
               [\<lparr>speaker = ''Agent A'', content = ''[Transfer]: '' @ expl,
                 timestamp = now_isoformat e\<rparr>,
                \<lparr>speaker = ''Agent B'', content = acknowledgment b,
                 timestamp = now_isoformat e\<rparr>],
               transfer_context :=
                 Some \<lparr>explanation = expl,
                       transfer_ctx.call_summary = or_else (call_summary_result e) [],
                       received_at = now_isoformat e\<rparr>\<rparr>"
    by (simp add: AgentB_receive_transfer_context_def add_to_conversation_def Let_def
                  acknowledgment_def)
  from s' neq a' have fa: "get_agent (agents s') a_id = Some (InstA
       (a\<lparr>conversation_history := conversation_history a @
               [\<lparr>speaker = ''Agent A'',
                 content = ''[Transfer explanation to '' @ b_id @ '']: '' @ expl,
                 timestamp = now_isoformat e\<rparr>]\<rparr>))"
    by (simp add: get_agent_def update_conv')
  from s' rb have fb: "get_agent (agents s') b_id = Some (InstB
       (b\<lparr>conversation_history := conversation_history b @
               [\<lparr>speaker = ''Agent A'', content = ''[Transfer]: '' @ expl,
                 timestamp = now_isoformat e\<rparr>,
                \<lparr>speaker = ''Agent B'', content = acknowledgment b,
                 timestamp = now_isoformat e\<rparr>],
               transfer_context :=
                 Some \<lparr>explanation = expl,
                       transfer_ctx.call_summary = or_else (call_summary_result e) [],
                       received_at = now_isoformat e\<rparr>\<rparr>))"
    by (simp add: get_agent_def update_conv')
  from fb have st: "map_option agent_state (get_agent (agents s') b_id) = Some (BaseAgent.state b)"
    by simp
  from ga gb0 ter ne res fa fb st show ?thesis by blast
qed


theorem explain_transfer_success_witness:
  "explain_transfer env0 sid1 ''agent_a_001'' ''agent_b_billing'' sys_transferring =
     (Inr (ExplainTransferResponse ''Caller has a billing question''
             (Some ''Customer asks about an invoice'')), sys_explained) \<and>
   get_agent (agents sys_transferring) ''agent_b_billing'' =
     Some (InstB (new_AgentB ''agent_b_billing'' ''Mike (Billing)'' ''Billing'')) \<and>
   map_option agent_state (get_agent (agents sys_explained) ''agent_b_billing'') = Some IDLE"
proof -
  have h: "explain_transfer env0 sid1 ''agent_a_001'' ''agent_b_billing'' sys_transferring =
     (Inr (ExplainTransferResponse ''Caller has a billing question''
             (Some ''Customer asks about an invoice'')), sys_explained)"
    by code_simp
  have gb: "get_agent (agents sys_transferring) ''agent_b_billing'' =
     Some (InstB (new_AgentB ''agent_b_billing'' ''Mike (Billing)'' ''Billing''))"
    by code_simp
  have st: "BaseAgent.state (new_AgentB ''agent_b_billing'' ''Mike (Billing)'' ''Billing'') = IDLE"
    by code_simp
  from explain_transfer_success [OF h] obtain b where
    "get_agent (agents sys_transferring) ''agent_b_billing'' = Some (InstB b)"
    "map_option agent_state (get_agent (agents sys_explained) ''agent_b_billing'') =
       Some (BaseAgent.state b)"
    by blast
  with gb st have "map_option agent_state (get_agent (agents sys_explained) ''agent_b_billing'') =
     Some IDLE" by simp
  with h gb show ?thesis by blast
qed

section \<open>The sequence of states of a session\<close>

text \<open>
  C8, as stated, fails. No operation checks the state it overwrites. A session that was
  created and ended can still be put into transfer: its observed states are
  \<open>WAITING, ENDED, TRANSFERRING\<close>, which is not a legal sequence of the
  specification, since \<open>ENDED\<close> is not final in it.
\<close>

theorem ended_session_can_be_transferred:
  "observed (states_of sid1 ops_end_then_initiate sys0) = [WAITING, ENDED, TRANSFERRING] \<and>
   \<not> spec_legal_sequence (observed (states_of sid1 ops_end_then_initiate sys0))"
  by code_simp

lemma session_state_sst: "session_state sid s = sst sid (active_sessions s)"
  by (simp add: session_state_def sst_def)

lemma code_transition_refl: "x \<noteq> None \<Longrightarrow> code_transition x x"
  by (cases x) auto

lemma sst_join_participant:
  "sst sid ss \<noteq> None \<Longrightarrow> code_transition (sst sid ss) (sst sid (snd (join_participant e k i r ss)))"
  by (auto simp: sst_def join_participant_def Let_def update_conv'
           split: option.splits sum.splits)

lemma sst_initiate_warm_transfer:
  "sst sid ss \<noteq> None \<Longrightarrow>
     code_transition (sst sid ss) (sst sid (snd (initiate_warm_transfer e k b r ss)))"
  by (auto simp: sst_def initiate_warm_transfer_def Let_def update_conv'
           split: option.splits sum.splits)

lemma sst_complete_transfer_service:
  "sst sid ss \<noteq> None \<Longrightarrow>
     code_transition (sst sid ss) (sst sid (snd (complete_transfer_service e k ss)))"
  by (auto simp: sst_def complete_transfer_service_def Let_def update_conv'
           split: option.splits sum.splits)

lemma sst_end_session:
  "sst sid ss \<noteq> None \<Longrightarrow> code_transition (sst sid ss) (sst sid (snd (end_session k ss)))"
  by (auto simp: sst_def end_session_def update_conv' split: option.splits)

lemma sst_create_call_session:
  "''session_'' @ now_ymd_hms e @ ''_'' @ caller \<noteq> sid \<Longrightarrow>
     sst sid (snd (create_call_session e caller a ss)) = sst sid ss"
  by (auto simp: sst_def create_call_session_def Let_def update_conv' split: sum.splits)

lemma sst_AgentA_complete_transfer:
  "sst sid (snd (snd (AgentA_complete_transfer e a ss))) = sst sid ss"
  by (auto simp: sst_def AgentA_complete_transfer_def get_session_def Let_def update_conv'
           split: option.splits)

lemma sst_AgentA_initiate_transfer:
  "sst sid ss \<noteq> None \<Longrightarrow>
     code_transition (sst sid ss) (sst sid (snd (snd (AgentA_initiate_transfer e b r a ss))))"
proof (cases "current_session_id a")
  case None
  assume "sst sid ss \<noteq> None"
  with None show ?thesis
    by (simp add: AgentA_initiate_transfer_def code_transition_refl)
next
  case (Some k)
  assume p: "sst sid ss \<noteq> None"
  show ?thesis
  proof (cases "k = []")
    case True
    with Some p show ?thesis by (simp add: AgentA_initiate_transfer_def code_transition_refl)
  next
    case False
    have "snd (snd (AgentA_initiate_transfer e b r a ss)) =
            snd (initiate_warm_transfer e k b (Some r) ss)"
      using Some False
      by (simp add: AgentA_initiate_transfer_def Let_def split: prod.splits sum.splits)
    with sst_initiate_warm_transfer [OF p] show ?thesis by simp
  qed
qed

lemma sst_AgentB_end_call:
  "sst sid ss \<noteq> None \<Longrightarrow>
     code_transition (sst sid ss) (sst sid (snd (snd (AgentB_end_call e b ss))))"
proof (cases "current_session_id b")
  case None
  assume "sst sid ss \<noteq> None"
  with None show ?thesis by (simp add: AgentB_end_call_def code_transition_refl)
next
  case (Some k)
  assume p: "sst sid ss \<noteq> None"
  show ?thesis
  proof (cases "k = []")
    case True
    with Some p show ?thesis by (simp add: AgentB_end_call_def code_transition_refl)
  next
    case False
    have "snd (snd (AgentB_end_call e b ss)) = snd (end_session k ss)"
      using Some False
      by (simp add: AgentB_end_call_def split: prod.splits sum.splits)
    with sst_end_session [OF p] show ?thesis by simp
  qed
qed


lemma code_transition_trans:
  "code_transition x y \<Longrightarrow> code_transition y z \<Longrightarrow> code_transition x z"
  by (cases x; cases y; cases z) auto

lemma sessions_create_call:
  "active_sessions (snd (create_call e caller ao s)) = active_sessions s \<or>
   (\<exists>aid. active_sessions (snd (create_call e caller ao s)) =
      snd (create_call_session e caller aid (active_sessions s)))"
proof -
  let ?r = "if \<not> truthy ao
            then (case get_available_agent_a (agents s) of
                    None \<Rightarrow> Inl (HTTPException 503 ''No Agent A available'')
                  | Some a \<Rightarrow> Inr (BaseAgent.identity a))
            else Inr (or_else ao [])"
  show ?thesis
  proof (cases ?r)
    case (Inl ex)
    have "active_sessions (snd (create_call e caller ao s)) = active_sessions s"
      unfolding create_call_def Inl by simp
    then show ?thesis ..
  next
    case (Inr aid)
    obtain res ss' where cs: "create_call_session e caller aid (active_sessions s) = (res, ss')"
      by (cases "create_call_session e caller aid (active_sessions s)")
    have "active_sessions (snd (create_call e caller ao s)) = ss'"
      unfolding create_call_def Inr
      by (cases res) (simp_all add: cs Let_def split: option.splits agent.splits)
    with cs have "active_sessions (snd (create_call e caller ao s)) =
        snd (create_call_session e caller aid (active_sessions s))" by simp
    then show ?thesis by blast
  qed
qed

lemma sessions_join_call:
  "active_sessions (snd (join_call e k i r s)) = active_sessions s \<or>
   (\<exists>rl. active_sessions (snd (join_call e k i r s)) =
      snd (join_participant e k i rl (active_sessions s)))"
  by (auto simp: join_call_def split: sum.splits prod.splits) (metis snd_conv)+

lemma sessions_initiate_transfer:
  "active_sessions (snd (initiate_transfer e k req s)) = active_sessions s \<or>
   (\<exists>b r a. active_sessions (snd (initiate_transfer e k req s)) =
      snd (snd (AgentA_initiate_transfer e b r a (active_sessions s))))"
  by (auto simp: initiate_transfer_def Let_def
           split: sum.splits option.splits prod.splits agent.splits) (metis snd_conv)+

lemma sessions_explain_transfer:
  "active_sessions (snd (explain_transfer e k a b s)) = active_sessions s"
  by (auto simp: explain_transfer_def Let_def
           split: sum.splits option.splits prod.splits agent.splits)

lemma sessions_complete_transfer:
  "active_sessions (snd (complete_transfer e k a_id s)) = active_sessions s \<or>
   (\<exists>a. active_sessions (snd (complete_transfer e k a_id s)) =
      snd (snd (AgentA_complete_transfer e a (active_sessions s))) \<or>
    active_sessions (snd (complete_transfer e k a_id s)) =
      snd (complete_transfer_service e k
             (snd (snd (AgentA_complete_transfer e a (active_sessions s))))))"
  by (auto simp: complete_transfer_def Let_def
           split: sum.splits option.splits prod.splits agent.splits) (metis snd_conv)+

lemma sessions_end_call:
  "active_sessions (end_call e b_id s) = active_sessions s \<or>
   (\<exists>b. active_sessions (end_call e b_id s) =
      snd (snd (AgentB_end_call e b (active_sessions s))))"
  by (auto simp: end_call_def split: option.splits prod.splits agent.splits) (metis snd_conv)+

lemma step_code_transition:
  assumes p: "session_state sid s \<noteq> None" and c: "creates e op \<noteq> Some sid"
  shows "code_transition (session_state sid s) (session_state sid (step e op s))"
proof -
  from p have q: "sst sid (active_sessions s) \<noteq> None" by (simp add: session_state_sst)
  note r = code_transition_refl [OF q]
  show ?thesis
  proof (cases op)
    case (CreateCall caller ao)
    with c have "''session_'' @ now_ymd_hms e @ ''_'' @ caller \<noteq> sid" by simp
    from sst_create_call_session [OF this] sessions_create_call [of e caller ao s] r
    show ?thesis unfolding CreateCall session_state_sst step.simps by auto
  next
    case (JoinCall k i rl)
    from sessions_join_call [of e k i rl s] sst_join_participant [OF q] r
    show ?thesis unfolding JoinCall session_state_sst step.simps by auto
  next
    case (InitiateTransfer k req)
    from sessions_initiate_transfer [of e k req s] sst_AgentA_initiate_transfer [OF q] r
    show ?thesis unfolding InitiateTransfer session_state_sst step.simps by auto
  next
    case (ExplainTransfer k a b)
    from sessions_explain_transfer [of e k a b s] r
    show ?thesis unfolding ExplainTransfer session_state_sst step.simps by auto
  next
    case (CompleteTransfer k a_id)
    have u: "sst sid (snd (snd (AgentA_complete_transfer e a (active_sessions s)))) =
             sst sid (active_sessions s)" for a
      by (rule sst_AgentA_complete_transfer)
    have v: "code_transition (sst sid (active_sessions s))
               (sst sid (snd (complete_transfer_service e k
                  (snd (snd (AgentA_complete_transfer e a (active_sessions s)))))))" for a
      using sst_complete_transfer_service
              [of sid "snd (snd (AgentA_complete_transfer e a (active_sessions s)))" e k] q
      by (simp add: u)
    from sessions_complete_transfer [of e k a_id s] u v r
    show ?thesis unfolding CompleteTransfer session_state_sst step.simps by auto
  next
    case (EndSession k)
    from sst_end_session [OF q]
    show ?thesis unfolding EndSession session_state_sst step.simps by simp
  next
    case (EndCall b_id)
    from sessions_end_call [of e b_id s] sst_AgentB_end_call [OF q] r
    show ?thesis unfolding EndCall session_state_sst step.simps by auto
  qed
qed

lemma code_transition_not_None: "code_transition x y \<Longrightarrow> y \<noteq> None"
  by (cases x; cases y) auto

lemma states_of_hd: "states_of sid ops s = session_state sid s # tl (states_of sid ops s)"
  by (cases ops) simp_all

text \<open>
  C8, amended. For every session in the store and every sequence of operations none of
  which creates a session under the same id, each pair of successive states of the
  session is a transition of the code: the state is kept, or goes from \<open>WAITING\<close> to
  \<open>CONNECTED\<close>, or is set to \<open>TRANSFERRING\<close>, \<open>TRANSFERRED\<close> or \<open>ENDED\<close>
  from whatever state it had. So a session never comes back to \<open>WAITING\<close> or to
  \<open>CONNECTED\<close>, while the three later states can follow each other in any order and
  \<open>ENDED\<close> is not terminal.
\<close>

theorem session_states_follow_code_transitions:
  "session_state sid s \<noteq> None \<Longrightarrow>
   list_all (\<lambda>x. creates (fst x) (snd x) \<noteq> Some sid) ops \<Longrightarrow>
   successively code_transition (states_of sid ops s)"
proof (induction ops arbitrary: s)
  case Nil
  then show ?case by simp
next
  case (Cons x ops)
  let ?s' = "step (fst x) (snd x) s"
  from Cons.prems have t: "code_transition (session_state sid s) (session_state sid ?s')"
    by (intro step_code_transition) simp_all
  then have "session_state sid ?s' \<noteq> None" by (rule code_transition_not_None)
  with Cons have ih: "successively code_transition (states_of sid ops ?s')" by simp
  obtain rest where eq: "states_of sid ops ?s' = session_state sid ?s' # rest"
    using states_of_hd [of sid ops ?s'] by blast
  from ih t show ?case by (simp add: eq)
qed


theorem session_states_follow_code_transitions_witness:
  "session_state sid1 sys_created = Some WAITING \<and>
   list_all (\<lambda>x. creates (fst x) (snd x) \<noteq> Some sid1) ops_after_create \<and>
   states_of sid1 ops_after_create sys_created =
     [Some WAITING, Some WAITING, Some WAITING, Some ENDED, Some TRANSFERRING] \<and>
   successively code_transition (states_of sid1 ops_after_create sys_created)"
proof -
  have h0: "session_state sid1 sys_created = Some WAITING" by code_simp
  then have h1: "session_state sid1 sys_created \<noteq> None" by simp
  have h2: "list_all (\<lambda>x. creates (fst x) (snd x) \<noteq> Some sid1) ops_after_create"
    by code_simp
  have h3: "states_of sid1 ops_after_create sys_created =
     [Some WAITING, Some WAITING, Some WAITING, Some ENDED, Some TRANSFERRING]"
    by code_simp
  from session_states_follow_code_transitions [OF h1 h2] h0 h2 h3 show ?thesis by blast
qed

section \<open>Completing a transfer\<close>

lemma complete_transfer_service_token_raises:
  "access_token_error e = Some ex \<Longrightarrow>
     isl (fst (complete_transfer_service e sid ss)) \<and> snd (complete_transfer_service e sid ss) = ss"
  by (simp add: complete_transfer_service_def generate_access_token_def Let_def
           split: option.splits sum.splits)

text \<open>
  Where the token call raises, no completion succeeds and none changes the state of a
  session, whatever the program state, the session and the agent named.
\<close>

lemma complete_transfer_never_succeeds:
  assumes tk: "access_token_error e = Some ex"
  shows "isl (fst (complete_transfer e sid a_id s)) \<and>
         session_state sid' (snd (complete_transfer e sid a_id s)) = session_state sid' s"
proof (cases "get_agent (agents s) a_id")
  case None
  then show ?thesis by (simp add: complete_transfer_def)
next
  case (Some ag)
  show ?thesis
  proof (cases ag)
    case (InstB b)
    with Some show ?thesis by (simp add: complete_transfer_def)
  next
    case (InstA a)
    obtain ok a' ss1 where ac: "AgentA_complete_transfer e a (active_sessions s) = (ok, a', ss1)"
      by (cases "AgentA_complete_transfer e a (active_sessions s)")
    from sst_AgentA_complete_transfer [of sid' e a "active_sessions s"] ac
    have keep: "sst sid' ss1 = sst sid' (active_sessions s)" by simp
    obtain res ss2 where cs: "complete_transfer_service e sid ss1 = (res, ss2)"
      by (cases "complete_transfer_service e sid ss1")
    from complete_transfer_service_token_raises [OF tk, of sid ss1] cs
    have il: "isl res" and same: "ss2 = ss1" by simp_all
    from il obtain x where res: "res = Inl x" by (cases res) simp_all
    from Some InstA ac cs res same keep show ?thesis
      by (simp add: complete_transfer_def session_state_sst Let_def)
  qed
qed


end
